theory Spec2Isabelle
  imports Main
begin

section \<open>Values of the program\<close>

text \<open>
  The program is one script, \<^verbatim>\<open>flashLoanBot.js\<close>. It resolves three logic classes from
  the Protocolink library (falling back to \<^verbatim>\<open>MockLogic\<close>), builds a bot whose borrow
  amount is 100 USDC, asks three quotations in sequence and prints what it found.

  Whatever a JavaScript statement throws (or a promise rejects with) is a value. The
  script only ever reads its \<^verbatim>\<open>message\<close>: \<open>Error m\<close> and \<open>TypeError m\<close> are error
  objects with the message \<open>m\<close> (any other value that is not nullish reads as
  \<^verbatim>\<open>undefined\<close> there and prints so: \<open>Error ''undefined''\<close>), and \<open>Nullish\<close> is a
  thrown \<^verbatim>\<open>undefined\<close> or \<^verbatim>\<open>null\<close>, on which reading \<^verbatim>\<open>.message\<close> itself throws.
\<close>

datatype js_error = Error string | TypeError string | Nullish


text \<open>The property read \<^verbatim>\<open>error.message\<close>.\<close>

fun message :: "js_error \<Rightarrow> js_error + string" where
  "message (Error m) = Inr m"
| "message (TypeError m) = Inr m"
| "message Nullish = Inl (TypeError ''Cannot read properties of undefined (reading 'message')'')"

text \<open>
  Token descriptors, as the entries of \<^verbatim>\<open>TOKENS\<close>. Amounts are ethers BigNumbers
  (or their decimal strings): unbounded integers, modelled as \<open>int\<close>.
\<close>

record token =
  chainId :: int
  address :: string
  decimals :: nat
  symbol :: string
  name :: string

text \<open>
  The parameter objects handed to the quotation methods, and the quotes they answer.
  The script calls three different properties \<^verbatim>\<open>amount\<close>; here the one of the swap
  parameters is \<open>swap_amount\<close> and the one of the flash-loan quote is \<open>quoted_amount\<close>.
\<close>

record flash_params =
  token :: token
  amount :: int

record flash_quote =
  quoted_amount :: int

record swap_params =
  inputToken :: token
  outputToken :: token
  swap_amount :: int
  pairAddress :: "string option"
  poolAddress :: "string option"

record swap_quote =
  outputAmount :: int

text \<open>
  An instance of a logic class, as far as the script uses it: the two quotation methods.
  A method the object does not have is \<open>None\<close>; a call that throws
  (or an awaited promise that rejects) answers \<open>Inl\<close>.
\<close>

record logic =
  getFlashLoanQuotation :: "(flash_params \<Rightarrow> js_error + flash_quote) option"
  getSwapQuotation :: "(swap_params \<Rightarrow> js_error + swap_quote) option"

datatype rpc_provider = JsonRpcProvider string

text \<open>
  The JavaScript values the module-level resolution can meet. \<open>Undefined\<close> stands for
  a missing property (or \<^verbatim>\<open>null\<close>; other falsy values are not modelled),
  \<open>MockLogicFn\<close> is the script's own function
  \<^verbatim>\<open>MockLogic\<close>, \<open>Function new call\<close> is any other function (what \<^verbatim>\<open>new f(chainId, provider)\<close>
  yields, and what the plain call \<^verbatim>\<open>f(key)\<close> yields), and \<open>Object\<close> is any other truthy
  value, with its properties.
\<close>

datatype jsval =
    Undefined
  | MockLogicFn
  | Function "int \<Rightarrow> rpc_provider \<Rightarrow> js_error + logic" "string \<Rightarrow> js_error + jsval"
  | Object "(string \<times> jsval) list"

fun truthy :: "jsval \<Rightarrow> bool" where
  "truthy Undefined = False"
| "truthy _ = True"

fun isFunction :: "jsval \<Rightarrow> bool" where
  "isFunction MockLogicFn = True"
| "isFunction (Function n c) = True"
| "isFunction _ = False"

text \<open>Property access \<^verbatim>\<open>v.k\<close> on a non-nullish value, and optional access \<^verbatim>\<open>v?.k\<close>.\<close>

fun lookup :: "(string \<times> jsval) list \<Rightarrow> string \<Rightarrow> jsval" where
  "lookup [] k = Undefined"
| "lookup ((k', v) # ps) k = (if k' = k then v else lookup ps k)"

fun getProp :: "jsval \<Rightarrow> string \<Rightarrow> jsval" where
  "getProp (Object ps) k = lookup ps k"
| "getProp _ k = Undefined"

text \<open>The optional call \<^verbatim>\<open>f?.(key)\<close>: nothing happens on a nullish \<^verbatim>\<open>f\<close>, a non-function throws.\<close>

fun optionalCall :: "jsval \<Rightarrow> string \<Rightarrow> js_error + jsval" where
  "optionalCall Undefined key = Inr Undefined"
| "optionalCall (Function n c) key = c key"
| "optionalCall MockLogicFn key = Inr Undefined"
| "optionalCall (Object ps) key = Inl (TypeError ''protocolink.createLogic is not a function'')"

section \<open>The ethers helpers the script calls\<close>

text \<open>
  \<^verbatim>\<open>ethers.utils.parseUnits(value, decimals)\<close> reads a decimal literal as an integer
  number of smallest units; \<^verbatim>\<open>parseEther\<close> is the same at 18 decimals. The library is
  not part of the repository; this follows its \<^verbatim>\<open>parseFixed\<close>: an optional sign, digits
  with at most one point, trailing zeros of the fraction dropped, an error when the
  fraction is longer than \<open>decimals\<close>, the fraction padded with zeros on the right.
\<close>

definition isDigit :: "char \<Rightarrow> bool" where
  "isDigit c = (48 \<le> (of_char c :: nat) \<and> (of_char c :: nat) \<le> 57)"

definition digitsToInt :: "string \<Rightarrow> int" where
  "digitsToInt ds = foldl (\<lambda>n c. 10 * n + ((of_char c :: int) - 48)) 0 ds"

fun splitDot :: "string \<Rightarrow> string list" where
  "splitDot [] = [[]]"
| "splitDot (c # cs) =
     (if c = CHR ''.'' then [] # splitDot cs
      else (case splitDot cs of [] \<Rightarrow> [[c]] | w # ws \<Rightarrow> (c # w) # ws))"

fun trimTrailingZeros :: "string \<Rightarrow> string" where
  "trimTrailingZeros s = rev (dropWhile (\<lambda>c. c = CHR ''0'') (rev s))"

definition parseUnits :: "string \<Rightarrow> nat \<Rightarrow> js_error + int" where
  "parseUnits v d =
     (let negative = (take 1 v = ''-'');
          body = (if negative then drop 1 v else v)
      in if body = [] \<or> \<not> list_all (\<lambda>c. isDigit c \<or> c = CHR ''.'') body
         then Inl (Error ''invalid decimal value'')
         else if body = ''.'' then Inl (Error ''missing value'')
         else
           (let comps = splitDot body in
            if length comps > 2 then Inl (Error ''too many decimal points'')
            else
              (let whole = (if hd comps = [] then ''0'' else hd comps);
                   fraction0 = (if length comps < 2 \<or> comps ! 1 = [] then ''0'' else comps ! 1);
                   fraction = trimTrailingZeros fraction0
               in if length fraction > d then Inl (Error ''fractional component exceeds decimals'')
                  else
                    (let padded = fraction @ replicate (d - length fraction) (CHR ''0'');
                         wei = digitsToInt whole * 10 ^ d + digitsToInt padded
                     in Inr (if negative then - wei else wei)))))"

definition parseEther :: "string \<Rightarrow> js_error + int" where
  "parseEther v = parseUnits v 18"

text \<open>
  \<^verbatim>\<open>ethers.utils.formatUnits(value, decimals)\<close> renders an amount for the console.
  The script only interpolates its result into log lines, so the rendered text is kept
  as the pair it is made from.
\<close>

datatype units_text = formatUnits int nat

section \<open>Configuration\<close>

definition CHAIN_ID :: int where
  "CHAIN_ID = 1"

text \<open>\<^verbatim>\<open>process.env.PROVIDER_URL || 'https://mainnet.infura.io/v3/YOUR_INFURA_KEY'\<close>\<close>

definition PROVIDER_URL :: "string option \<Rightarrow> string" where
  "PROVIDER_URL env =
     (case env of
        None \<Rightarrow> ''https://mainnet.infura.io/v3/YOUR_INFURA_KEY''
      | Some u \<Rightarrow> (if u = [] then ''https://mainnet.infura.io/v3/YOUR_INFURA_KEY'' else u))"

definition provider :: "string option \<Rightarrow> rpc_provider" where
  "provider env = JsonRpcProvider (PROVIDER_URL env)"

definition TOKENS_USDC :: token where
  "TOKENS_USDC = \<lparr>chainId = CHAIN_ID, address = ''0xA0b86991c6218b36c1d19D4a2e9Eb0cE3606eB48'',
     decimals = 6, symbol = ''USDC'', name = ''USD Coin''\<rparr>"

definition TOKENS_ETH :: token where
  "TOKENS_ETH = \<lparr>chainId = CHAIN_ID, address = ''0x0000000000000000000000000000000000000000'',
     decimals = 18, symbol = ''ETH'', name = ''Ether''\<rparr>"

definition SUSHISWAP_V2_PAIR_ADDRESS :: string where
  "SUSHISWAP_V2_PAIR_ADDRESS = ''0x397FF1542f962076d0BEEcb4798dA619dEFdFE2B''"

definition UNISWAP_V3_POOL_ADDRESS :: string where
  "UNISWAP_V3_POOL_ADDRESS = ''0x4e68Ccd3E89f51C3074ca5072bbAC4F90096C57''"

section \<open>MockLogic\<close>

text \<open>
  \<^verbatim>\<open>new MockLogic(chainId, provider)\<close>, lines 32 to 38: the flash-loan quotation
  echoes the requested amount; the swap quotation looks at the input token's symbol only.
\<close>

definition MockLogic_getFlashLoanQuotation :: "flash_params \<Rightarrow> js_error + flash_quote" where
  "MockLogic_getFlashLoanQuotation params = Inr \<lparr>quoted_amount = amount params\<rparr>"

definition MockLogic_getSwapQuotation :: "swap_params \<Rightarrow> js_error + swap_quote" where
  "MockLogic_getSwapQuotation params =
     (if symbol (inputToken params) = ''USDC''
      then (case parseEther ''0.04'' of Inl e \<Rightarrow> Inl e | Inr v \<Rightarrow> Inr \<lparr>outputAmount = v\<rparr>)
      else (case parseUnits ''104'' 6 of Inl e \<Rightarrow> Inl e | Inr v \<Rightarrow> Inr \<lparr>outputAmount = v\<rparr>))"

definition MockLogic :: "int \<Rightarrow> rpc_provider \<Rightarrow> logic" where
  "MockLogic chain prov =
     \<lparr>getFlashLoanQuotation = Some MockLogic_getFlashLoanQuotation,
      getSwapQuotation = Some MockLogic_getSwapQuotation\<rparr>"

section \<open>Loading the logic classes\<close>

text \<open>What the script writes to the console, line by line, and the quotation requests it issues.\<close>

datatype line =
    ProtocolinkExports "string list"
  | StartingBot
  | BotRunCompleted
  | FlashLoanBorrowed units_text string
  | Swap1 units_text string units_text string
  | Swap2 units_text string units_text string
  | Profit units_text string
  | NoProfitDetected
  | SetupInstructionsHeader
  | AddCube nat string string
  | BorrowAmount units_text
  | InputUSDC units_text
  | OutputETH units_text
  | InputETH units_text
  | OutputUSDC units_text units_text
  | ReviewAndExecute nat
  | NoteLiquidityGas

datatype callee = sushiswapLogic | uniswapLogic

fun calleeName :: "callee \<Rightarrow> string" where
  "calleeName sushiswapLogic = ''sushiswapLogic''"
| "calleeName uniswapLogic = ''uniswapLogic''"

datatype event =
    Log line
  | ErrorLog string string
  | FlashLoanQuotationCall flash_params
  | SwapQuotationCall callee swap_params

text \<open>
  One of the three resolutions of lines 11 to 22:
  \<^verbatim>\<open>protocolink.X || protocolink.logics?.X || protocolink.createLogic?.(key) || MockLogic\<close>.
  \<^verbatim>\<open>||\<close> evaluates its right operand only when the left one is falsy.
\<close>

definition resolveLogic :: "jsval \<Rightarrow> string \<Rightarrow> string \<Rightarrow> js_error + jsval" where
  "resolveLogic protocolink X key =
     (if truthy (getProp protocolink X) then Inr (getProp protocolink X)
      else if truthy (getProp (getProp protocolink ''logics'') X)
      then Inr (getProp (getProp protocolink ''logics'') X)
      else (case optionalCall (getProp protocolink ''createLogic'') key of
              Inl e \<Rightarrow> Inl e
            | Inr v \<Rightarrow> if truthy v then Inr v else Inr MockLogicFn))"

record logics =
  BalancerV2FlashLoanLogic :: jsval
  SushiswapV2SwapLogic :: jsval
  UniswapV3SwapLogic :: jsval

definition allMock :: logics where
  "allMock = \<lparr>BalancerV2FlashLoanLogic = MockLogicFn, SushiswapV2SwapLogic = MockLogicFn,
     UniswapV3SwapLogic = MockLogicFn\<rparr>"

fun keys :: "jsval \<Rightarrow> string list" where
  "keys (Object ps) = map fst ps"
| "keys _ = []"

text \<open>The body of the module-level \<^verbatim>\<open>try\<close>; \<open>Inl\<close> is what reaches the \<^verbatim>\<open>catch\<close>.\<close>

definition loadTry :: "js_error + jsval \<Rightarrow> event list \<times> (js_error + logics)" where
  "loadTry required =
     (case required of
        Inl e \<Rightarrow> ([], Inl e)
      | Inr protocolink \<Rightarrow>
          (if \<not> truthy protocolink
           then ([], Inl (TypeError ''Cannot convert undefined or null to object''))
           else
             ([Log (ProtocolinkExports (keys protocolink))],
              (case resolveLogic protocolink ''BalancerV2FlashLoanLogic'' ''balancer-v2-flash-loan'' of
                 Inl e \<Rightarrow> Inl e
               | Inr b \<Rightarrow>
              (case resolveLogic protocolink ''SushiswapV2SwapLogic'' ''sushiswap-v2-swap'' of
                 Inl e \<Rightarrow> Inl e
               | Inr s \<Rightarrow>
              (case resolveLogic protocolink ''UniswapV3SwapLogic'' ''uniswap-v3-swap'' of
                 Inl e \<Rightarrow> Inl e
               | Inr u \<Rightarrow>
                 if \<not> isFunction b then Inl (Error ''BalancerV2FlashLoanLogic is not a function'')
                 else Inr \<lparr>BalancerV2FlashLoanLogic = b, SushiswapV2SwapLogic = s,
                           UniswapV3SwapLogic = u\<rparr>))))))"

text \<open>
  Lines 5 to 29: the message of whatever the \<^verbatim>\<open>try\<close> throws is logged and all three
  classes become \<^verbatim>\<open>MockLogic\<close>. The argument \<^verbatim>\<open>e.message\<close> of line 27 is evaluated
  before anything is printed or assigned: when it throws, the module fails to load with
  that error (\<open>Inl\<close>).
\<close>

definition loadLogics :: "js_error + jsval \<Rightarrow> event list \<times> (js_error + logics)" where
  "loadLogics required =
     (case loadTry required of
        (ev, Inl e) \<Rightarrow>
          (case message e of
             Inl thrown \<Rightarrow> (ev, Inl thrown)
           | Inr m \<Rightarrow>
               (ev @ [ErrorLog ''Error: Could not load Protocolink logic classes. Using mock logic.'' m],
                Inr allMock))
      | (ev, Inr ls) \<Rightarrow> (ev, Inr ls))"

section \<open>The bot\<close>

record bot =
  flashLoanAmount :: int

text \<open>The constructor: \<^verbatim>\<open>this.flashLoanAmount = parseUnits('100', TOKENS.USDC.decimals)\<close>.\<close>

definition newFlashLoanArbitrageBot :: "js_error + bot" where
  "newFlashLoanArbitrageBot =
     (case parseUnits ''100'' (decimals TOKENS_USDC) of
        Inl e \<Rightarrow> Inl e
      | Inr v \<Rightarrow> Inr \<lparr>flashLoanAmount = v\<rparr>)"

text \<open>
  \<^verbatim>\<open>typeof X === 'function' ? new X(CHAIN_ID, provider) : X(CHAIN_ID, provider)\<close>:
  calling a value that is not a function throws a TypeError.
\<close>

fun instantiate :: "string \<Rightarrow> jsval \<Rightarrow> int \<Rightarrow> rpc_provider \<Rightarrow> js_error + logic" where
  "instantiate X MockLogicFn chain prov = Inr (MockLogic chain prov)"
| "instantiate X (Function n c) chain prov = n chain prov"
| "instantiate X v chain prov = Inl (TypeError (X @ '' is not a function''))"

text \<open>
  A quotation request on a logic instance. The request is recorded when the method
  exists and is invoked; a missing method throws before any request is made.
\<close>

definition callFlashLoanQuotation ::
  "logic \<Rightarrow> flash_params \<Rightarrow> event list \<times> (js_error + flash_quote)" where
  "callFlashLoanQuotation l params =
     (case getFlashLoanQuotation l of
        None \<Rightarrow> ([], Inl (TypeError ''flashLoanLogic.getFlashLoanQuotation is not a function''))
      | Some f \<Rightarrow> ([FlashLoanQuotationCall params], f params))"

definition callSwapQuotation ::
  "callee \<Rightarrow> logic \<Rightarrow> swap_params \<Rightarrow> event list \<times> (js_error + swap_quote)" where
  "callSwapQuotation who l params =
     (case getSwapQuotation l of
        None \<Rightarrow> ([], Inl (TypeError (calleeName who @ ''.getSwapQuotation is not a function'')))
      | Some f \<Rightarrow> ([SwapQuotationCall who params], f params))"

text \<open>
  Sequencing of statements that may throw: the events of both are kept in order, and a
  throw skips the rest.
\<close>

definition andThen ::
  "event list \<times> (js_error + 'a) \<Rightarrow> ('a \<Rightarrow> event list \<times> (js_error + 'b))
     \<Rightarrow> event list \<times> (js_error + 'b)" where
  "andThen m f =
     (case m of
        (ev, Inl e) \<Rightarrow> (ev, Inl e)
      | (ev, Inr x) \<Rightarrow> (case f x of (ev', r) \<Rightarrow> (ev @ ev', r)))"

definition noEvents :: "js_error + 'a \<Rightarrow> event list \<times> (js_error + 'a)" where
  "noEvents r = ([], r)"

definition consoleLog :: "line list \<Rightarrow> event list \<times> (js_error + unit)" where
  "consoleLog ls = (map Log ls, Inr ())"

text \<open>\<^verbatim>\<open>outputFurucomboInstructions(usdcBorrowed, ethReceived, usdcFinal)\<close>, lines 100 to 112.\<close>

definition outputFurucomboInstructions :: "units_text \<Rightarrow> units_text \<Rightarrow> units_text \<Rightarrow> line list" where
  "outputFurucomboInstructions usdcBorrowed ethReceived usdcFinal =
     [SetupInstructionsHeader,
      AddCube 1 ''Flash Loan'' ''Balancer V2'',
      BorrowAmount usdcBorrowed,
      AddCube 2 ''Swap'' ''Sushiswap V2'',
      InputUSDC usdcBorrowed,
      OutputETH ethReceived,
      AddCube 3 ''Swap'' ''Uniswap V3'',
      InputETH ethReceived,
      OutputUSDC usdcFinal usdcBorrowed,
      ReviewAndExecute 4,
      NoteLiquidityGas]"

text \<open>
  The value a call of \<^verbatim>\<open>checkArbitrageOpportunity\<close> hands back. The specification
  names it \<open>ArbitrageResult\<close>; the record below is that shape, taken from the
  specification's data model (the script builds no such object).
\<close>

record ArbitrageResult =
  borrowed :: int
  intermediate :: int
  final :: int
  result_profit :: int
  profitable :: bool

text \<open>
  The \<^verbatim>\<open>const\<close> bindings of the \<^verbatim>\<open>try\<close> block that later statements read, as they
  stand when the block completes.
\<close>

record locals =
  flashLoanQuote :: flash_quote
  ethReceived :: int
  usdcReceived :: int
  profit :: int

text \<open>Step 1: Flash Loan (lines 64 to 67).\<close>

definition step1_flashLoan ::
  "bot \<Rightarrow> logics \<Rightarrow> rpc_provider \<Rightarrow> event list \<times> (js_error + flash_quote)" where
  "step1_flashLoan this ls prov =
     andThen (noEvents (instantiate ''BalancerV2FlashLoanLogic''
                (BalancerV2FlashLoanLogic ls) CHAIN_ID prov))
       (\<lambda>flashLoanLogic.
     andThen (callFlashLoanQuotation flashLoanLogic
                \<lparr>token = TOKENS_USDC, amount = flashLoanAmount this\<rparr>)
       (\<lambda>quote.
     andThen (consoleLog [FlashLoanBorrowed
                (formatUnits (quoted_amount quote) (decimals TOKENS_USDC))
                (symbol TOKENS_USDC)])
       (\<lambda>_. noEvents (Inr quote))))"

text \<open>Step 2: Swap USDC to ETH on Sushiswap V2 (lines 70 to 74).\<close>

definition step2_swapSushiswap ::
  "logics \<Rightarrow> rpc_provider \<Rightarrow> flash_quote \<Rightarrow> event list \<times> (js_error + swap_quote)" where
  "step2_swapSushiswap ls prov quote =
     andThen (noEvents (instantiate ''SushiswapV2SwapLogic''
                (SushiswapV2SwapLogic ls) CHAIN_ID prov))
       (\<lambda>sushi.
     andThen (callSwapQuotation sushiswapLogic sushi
                \<lparr>inputToken = TOKENS_USDC, outputToken = TOKENS_ETH,
                 swap_amount = quoted_amount quote,
                 pairAddress = Some SUSHISWAP_V2_PAIR_ADDRESS, poolAddress = None\<rparr>)
       (\<lambda>swap1Quote.
     andThen (consoleLog [Swap1
                (formatUnits (quoted_amount quote) (decimals TOKENS_USDC))
                (symbol TOKENS_USDC)
                (formatUnits (outputAmount swap1Quote) (decimals TOKENS_ETH))
                (symbol TOKENS_ETH)])
       (\<lambda>_. noEvents (Inr swap1Quote))))"

text \<open>Step 3: Swap ETH back to USDC on Uniswap V3 (lines 77 to 81).\<close>

definition step3_swapUniswap ::
  "logics \<Rightarrow> rpc_provider \<Rightarrow> int \<Rightarrow> event list \<times> (js_error + swap_quote)" where
  "step3_swapUniswap ls prov eth =
     andThen (noEvents (instantiate ''UniswapV3SwapLogic''
                (UniswapV3SwapLogic ls) CHAIN_ID prov))
       (\<lambda>uni.
     andThen (callSwapQuotation uniswapLogic uni
                \<lparr>inputToken = TOKENS_ETH, outputToken = TOKENS_USDC,
                 swap_amount = eth,
                 pairAddress = None, poolAddress = Some UNISWAP_V3_POOL_ADDRESS\<rparr>)
       (\<lambda>swap2Quote.
     andThen (consoleLog [Swap2
                (formatUnits eth (decimals TOKENS_ETH)) (symbol TOKENS_ETH)
                (formatUnits (outputAmount swap2Quote) (decimals TOKENS_USDC))
                (symbol TOKENS_USDC)])
       (\<lambda>_. noEvents (Inr swap2Quote))))"

text \<open>
  Step 4: Check Profitability (lines 84 to 94). The subtraction is against
  \<^verbatim>\<open>this.flashLoanAmount\<close>; the instructions are given the quoted amount.
\<close>

definition step4_checkProfitability ::
  "bot \<Rightarrow> flash_quote \<Rightarrow> int \<Rightarrow> int \<Rightarrow> event list \<times> (js_error + locals)" where
  "step4_checkProfitability this quote eth usdc =
     (let p = usdc - flashLoanAmount this in
      andThen
        (if p > 0
         then consoleLog
                (Profit (formatUnits p (decimals TOKENS_USDC)) (symbol TOKENS_USDC)
                 # outputFurucomboInstructions
                     (formatUnits (quoted_amount quote) (decimals TOKENS_USDC))
                     (formatUnits eth (decimals TOKENS_ETH))
                     (formatUnits usdc (decimals TOKENS_USDC)))
         else consoleLog [NoProfitDetected])
        (\<lambda>_. noEvents (Inr \<lparr>flashLoanQuote = quote, ethReceived = eth,
                               usdcReceived = usdc, profit = p\<rparr>)))"

text \<open>The \<^verbatim>\<open>try\<close> block of \<^verbatim>\<open>checkArbitrageOpportunity\<close>, lines 63 to 94.\<close>

definition checkTry :: "bot \<Rightarrow> logics \<Rightarrow> rpc_provider \<Rightarrow> event list \<times> (js_error + locals)" where
  "checkTry this ls prov =
     andThen (step1_flashLoan this ls prov)
       (\<lambda>quote.
     andThen (step2_swapSushiswap ls prov quote)
       (\<lambda>swap1Quote.
     andThen (step3_swapUniswap ls prov (outputAmount swap1Quote))
       (\<lambda>swap2Quote.
     step4_checkProfitability this quote (outputAmount swap1Quote) (outputAmount swap2Quote))))"

text \<open>
  \<^verbatim>\<open>checkArbitrageOpportunity\<close>, lines 61 to 98: the \<^verbatim>\<open>catch\<close> logs the message of
  whatever the \<^verbatim>\<open>try\<close> block threw. The function has no \<^verbatim>\<open>return\<close> statement, so its
  promise resolves with \<^verbatim>\<open>undefined\<close> (\<open>None\<close>) when the block completes and when the
  \<^verbatim>\<open>catch\<close> completes. The argument \<^verbatim>\<open>error.message\<close> of line 96 is evaluated before
  anything is printed: when it throws, the \<^verbatim>\<open>catch\<close> throws and the promise is
  rejected (\<open>Inl\<close>).
\<close>

definition checkArbitrageOpportunity ::
  "bot \<Rightarrow> logics \<Rightarrow> rpc_provider \<Rightarrow> event list \<times> (js_error + ArbitrageResult option)" where
  "checkArbitrageOpportunity this ls prov =
     (case checkTry this ls prov of
        (ev, Inl error) \<Rightarrow>
          (case message error of
             Inl thrown \<Rightarrow> (ev, Inl thrown)
           | Inr m \<Rightarrow> (ev @ [ErrorLog ''Error checking arbitrage opportunity:'' m], Inr None))
      | (ev, Inr _) \<Rightarrow> (ev, Inr None))"

text \<open>
  \<^verbatim>\<open>run\<close>, lines 114 to 118: the value of the check is awaited and dropped; a
  rejection of the check rejects \<^verbatim>\<open>run\<close> before its last line is printed.
\<close>

definition run :: "bot \<Rightarrow> logics \<Rightarrow> rpc_provider \<Rightarrow> event list \<times> (js_error + unit)" where
  "run this ls prov =
     andThen (consoleLog [StartingBot])
       (\<lambda>_. andThen (checkArbitrageOpportunity this ls prov)
       (\<lambda>_. consoleLog [BotRunCompleted]))"

text \<open>
  The whole script: load the logic classes, build the provider and the bot, run it.
  The inputs are what \<^verbatim>\<open>require('@protocolink/core')\<close> yields and the environment's
  \<^verbatim>\<open>PROVIDER_URL\<close>. \<open>Inl\<close> is an error nothing catches: an exception at module level,
  or the rejection of \<^verbatim>\<open>bot.run()\<close>, which line 123 leaves unhandled.
\<close>

definition main :: "js_error + jsval \<Rightarrow> string option \<Rightarrow> event list \<times> (js_error + unit)" where
  "main required env =
     andThen (loadLogics required)
       (\<lambda>ls. andThen (noEvents newFlashLoanArbitrageBot)
       (\<lambda>b. run b ls (provider env)))"

section \<open>Reading a run\<close>

text \<open>What a reader of the console picks out of a run.\<close>

fun isProfitLine :: "event \<Rightarrow> bool" where
  "isProfitLine (Log (Profit t s)) = True"
| "isProfitLine _ = False"

definition reportsProfit :: "event list \<Rightarrow> bool" where
  "reportsProfit ev = list_ex isProfitLine ev"

definition reportsNoProfit :: "event list \<Rightarrow> bool" where
  "reportsNoProfit ev = list_ex (\<lambda>e. e = Log NoProfitDetected) ev"

fun isInstruction :: "line \<Rightarrow> bool" where
  "isInstruction SetupInstructionsHeader = True"
| "isInstruction (AddCube n k v) = True"
| "isInstruction (BorrowAmount a) = True"
| "isInstruction (InputUSDC a) = True"
| "isInstruction (OutputETH a) = True"
| "isInstruction (InputETH a) = True"
| "isInstruction (OutputUSDC a b) = True"
| "isInstruction (ReviewAndExecute n) = True"
| "isInstruction NoteLiquidityGas = True"
| "isInstruction _ = False"

text \<open>The instruction lines of a run, in the order printed.\<close>

fun instructions :: "event list \<Rightarrow> line list" where
  "instructions [] = []"
| "instructions (Log l # es) = (if isInstruction l then l # instructions es else instructions es)"
| "instructions (e # es) = instructions es"

text \<open>The cubes the instructions tell the operator to add: number, kind and venue.\<close>

fun cubes :: "line list \<Rightarrow> (nat \<times> string \<times> string) list" where
  "cubes [] = []"
| "cubes (AddCube n k v # ls) = (n, k, v) # cubes ls"
| "cubes (l # ls) = cubes ls"

text \<open>The swap quotation requests of a run, in the order issued.\<close>

fun swapCalls :: "event list \<Rightarrow> (callee \<times> swap_params) list" where
  "swapCalls [] = []"
| "swapCalls (SwapQuotationCall who params # es) = (who, params) # swapCalls es"
| "swapCalls (e # es) = swapCalls es"

fun flashLoanCalls :: "event list \<Rightarrow> flash_params list" where
  "flashLoanCalls [] = []"
| "flashLoanCalls (FlashLoanQuotationCall params # es) = params # flashLoanCalls es"
| "flashLoanCalls (e # es) = flashLoanCalls es"

fun errorLogs :: "event list \<Rightarrow> (string \<times> string) list" where
  "errorLogs [] = []"
| "errorLogs (ErrorLog a b # es) = (a, b) # errorLogs es"
| "errorLogs (e # es) = errorLogs es"

text \<open>The events of a completed block: six lines of requests and logs, then the verdict.\<close>

definition verdict :: "bot \<Rightarrow> locals \<Rightarrow> event list" where
  "verdict this st =
     (if 0 < profit st
      then map Log (Profit (formatUnits (profit st) 6) ''USDC''
             # outputFurucomboInstructions
                 (formatUnits (quoted_amount (flashLoanQuote st)) 6)
                 (formatUnits (ethReceived st) 18) (formatUnits (usdcReceived st) 6))
      else [Log NoProfitDetected])"

section \<open>Inputs used below\<close>

text \<open>The bot the constructor builds: 100 USDC in units of 10^-6.\<close>

definition bot100 :: bot where
  "bot100 = \<lparr>flashLoanAmount = 100000000\<rparr>"

text \<open>A logic class whose instances answer every quotation with a fixed amount.\<close>

definition fixedQuoteLogic :: "int \<Rightarrow> jsval" where
  "fixedQuoteLogic a =
     Function
       (\<lambda>chain prov. Inr \<lparr>getFlashLoanQuotation = Some (\<lambda>params. Inr \<lparr>quoted_amount = a\<rparr>),
                            getSwapQuotation = Some (\<lambda>params. Inr \<lparr>outputAmount = a\<rparr>)\<rparr>)
       (\<lambda>key. Inr Undefined)"


text \<open>A logic class whose instances reject every quotation with \<^verbatim>\<open>undefined\<close>.\<close>

definition rejectsUndefinedLogic :: jsval where
  "rejectsUndefinedLogic =
     Function
       (\<lambda>chain prov. Inr \<lparr>getFlashLoanQuotation = Some (\<lambda>params. Inl Nullish),
                            getSwapQuotation = Some (\<lambda>params. Inl Nullish)\<rparr>)
       (\<lambda>key. Inr Undefined)"






section \<open>Basic facts\<close>

lemma parseUnits_100: "parseUnits ''100'' 6 = Inr 100000000"
  by code_simp

lemma parseEther_004: "parseEther ''0.04'' = Inr 40000000000000000"
  by code_simp

lemma parseUnits_104: "parseUnits ''104'' 6 = Inr 104000000"
  by code_simp

lemma newFlashLoanArbitrageBot_eq: "newFlashLoanArbitrageBot = Inr bot100"
  by (simp add: newFlashLoanArbitrageBot_def TOKENS_USDC_def parseUnits_100 bot100_def)

lemma MockLogic_getSwapQuotation_eq:
  "MockLogic_getSwapQuotation params =
     (if symbol (inputToken params) = ''USDC''
      then Inr \<lparr>outputAmount = 40000000000000000\<rparr>
      else Inr \<lparr>outputAmount = 104000000\<rparr>)"
  by (simp add: MockLogic_getSwapQuotation_def parseEther_004 parseUnits_104)

lemma andThen_eq_Inr:
  "andThen m f = (ev, Inr y) \<longleftrightarrow>
     (\<exists>ev1 x ev2. m = (ev1, Inr x) \<and> f x = (ev2, Inr y) \<and> ev = ev1 @ ev2)"
  by (cases m) (auto simp: andThen_def split: sum.splits prod.splits)

lemma andThen_eq_Inl:
  "andThen m f = (ev, Inl e) \<longleftrightarrow>
     (m = (ev, Inl e) \<or> (\<exists>ev1 x ev2. m = (ev1, Inr x) \<and> f x = (ev2, Inl e) \<and> ev = ev1 @ ev2))"
  by (cases m) (auto simp: andThen_def split: sum.splits prod.splits)

subsection \<open>The shape of each step\<close>

lemma step1_Inr:
  assumes "step1_flashLoan this ls prov = (ev, Inr q)"
  shows "ev = [FlashLoanQuotationCall \<lparr>token = TOKENS_USDC, amount = flashLoanAmount this\<rparr>,
               Log (FlashLoanBorrowed (formatUnits (quoted_amount q) 6) ''USDC'')]"
  using assms
  by (auto simp: step1_flashLoan_def andThen_eq_Inr noEvents_def consoleLog_def
      callFlashLoanQuotation_def TOKENS_USDC_def split: option.splits)

lemma step1_answer:
  assumes "step1_flashLoan this ls prov = (ev, Inr q)"
  shows "\<exists>l f. instantiate ''BalancerV2FlashLoanLogic'' (BalancerV2FlashLoanLogic ls) CHAIN_ID prov = Inr l \<and>
           getFlashLoanQuotation l = Some f \<and>
           f \<lparr>token = TOKENS_USDC, amount = flashLoanAmount this\<rparr> = Inr q"
  using assms
  by (auto simp: step1_flashLoan_def andThen_eq_Inr noEvents_def consoleLog_def
      callFlashLoanQuotation_def split: option.splits)

lemma step1_Inl:
  assumes "step1_flashLoan this ls prov = (ev, Inl e)"
  shows "ev = [] \<or> ev = [FlashLoanQuotationCall \<lparr>token = TOKENS_USDC, amount = flashLoanAmount this\<rparr>]"
  using assms
  by (auto simp: step1_flashLoan_def andThen_eq_Inl andThen_eq_Inr noEvents_def consoleLog_def
      callFlashLoanQuotation_def split: option.splits)

lemma step2_Inr:
  assumes "step2_swapSushiswap ls prov q = (ev, Inr s)"
  shows "ev = [SwapQuotationCall sushiswapLogic
                 \<lparr>inputToken = TOKENS_USDC, outputToken = TOKENS_ETH,
                  swap_amount = quoted_amount q,
                  pairAddress = Some SUSHISWAP_V2_PAIR_ADDRESS, poolAddress = None\<rparr>,
               Log (Swap1 (formatUnits (quoted_amount q) 6) ''USDC''
                          (formatUnits (outputAmount s) 18) ''ETH'')]"
  using assms
  by (auto simp: step2_swapSushiswap_def andThen_eq_Inr noEvents_def consoleLog_def
      callSwapQuotation_def TOKENS_USDC_def TOKENS_ETH_def split: option.splits)

lemma step2_answer:
  assumes "step2_swapSushiswap ls prov q = (ev, Inr s)"
  shows "\<exists>l g. instantiate ''SushiswapV2SwapLogic'' (SushiswapV2SwapLogic ls) CHAIN_ID prov = Inr l \<and>
           getSwapQuotation l = Some g \<and>
           g \<lparr>inputToken = TOKENS_USDC, outputToken = TOKENS_ETH,
              swap_amount = quoted_amount q,
              pairAddress = Some SUSHISWAP_V2_PAIR_ADDRESS, poolAddress = None\<rparr> = Inr s"
  using assms
  by (auto simp: step2_swapSushiswap_def andThen_eq_Inr noEvents_def consoleLog_def
      callSwapQuotation_def split: option.splits)

lemma step2_Inl:
  assumes "step2_swapSushiswap ls prov q = (ev, Inl e)"
  shows "ev = [] \<or> ev = [SwapQuotationCall sushiswapLogic
                 \<lparr>inputToken = TOKENS_USDC, outputToken = TOKENS_ETH,
                  swap_amount = quoted_amount q,
                  pairAddress = Some SUSHISWAP_V2_PAIR_ADDRESS, poolAddress = None\<rparr>]"
  using assms
  by (auto simp: step2_swapSushiswap_def andThen_eq_Inl andThen_eq_Inr noEvents_def consoleLog_def
      callSwapQuotation_def split: option.splits)

lemma step3_Inr:
  assumes "step3_swapUniswap ls prov eth = (ev, Inr s)"
  shows "ev = [SwapQuotationCall uniswapLogic
                 \<lparr>inputToken = TOKENS_ETH, outputToken = TOKENS_USDC,
                  swap_amount = eth,
                  pairAddress = None, poolAddress = Some UNISWAP_V3_POOL_ADDRESS\<rparr>,
               Log (Swap2 (formatUnits eth 18) ''ETH''
                          (formatUnits (outputAmount s) 6) ''USDC'')]"
  using assms
  by (auto simp: step3_swapUniswap_def andThen_eq_Inr noEvents_def consoleLog_def
      callSwapQuotation_def TOKENS_USDC_def TOKENS_ETH_def split: option.splits)

lemma step3_answer:
  assumes "step3_swapUniswap ls prov eth = (ev, Inr s)"
  shows "\<exists>l h. instantiate ''UniswapV3SwapLogic'' (UniswapV3SwapLogic ls) CHAIN_ID prov = Inr l \<and>
           getSwapQuotation l = Some h \<and>
           h \<lparr>inputToken = TOKENS_ETH, outputToken = TOKENS_USDC,
              swap_amount = eth,
              pairAddress = None, poolAddress = Some UNISWAP_V3_POOL_ADDRESS\<rparr> = Inr s"
  using assms
  by (auto simp: step3_swapUniswap_def andThen_eq_Inr noEvents_def consoleLog_def
      callSwapQuotation_def split: option.splits)

lemma step3_Inl:
  assumes "step3_swapUniswap ls prov eth = (ev, Inl e)"
  shows "ev = [] \<or> ev = [SwapQuotationCall uniswapLogic
                 \<lparr>inputToken = TOKENS_ETH, outputToken = TOKENS_USDC,
                  swap_amount = eth,
                  pairAddress = None, poolAddress = Some UNISWAP_V3_POOL_ADDRESS\<rparr>]"
  using assms
  by (auto simp: step3_swapUniswap_def andThen_eq_Inl andThen_eq_Inr noEvents_def consoleLog_def
      callSwapQuotation_def split: option.splits)

lemma step4_eq:
  "step4_checkProfitability this q eth usdc =
     ((if 0 < usdc - flashLoanAmount this
       then map Log (Profit (formatUnits (usdc - flashLoanAmount this) 6) ''USDC''
              # outputFurucomboInstructions (formatUnits (quoted_amount q) 6)
                  (formatUnits eth 18) (formatUnits usdc 6))
       else [Log NoProfitDetected]),
      Inr \<lparr>flashLoanQuote = q, ethReceived = eth, usdcReceived = usdc,
           profit = usdc - flashLoanAmount this\<rparr>)"
  by (simp add: step4_checkProfitability_def Let_def andThen_def consoleLog_def noEvents_def
      TOKENS_USDC_def TOKENS_ETH_def)

subsection \<open>The shape of the whole \<^verbatim>\<open>try\<close> block\<close>

lemma checkTry_Inr:
  assumes "checkTry this ls prov = (ev, Inr st)"
  shows "\<exists>ev1 ev2 ev3 s1 s2.
           step1_flashLoan this ls prov = (ev1, Inr (flashLoanQuote st)) \<and>
           step2_swapSushiswap ls prov (flashLoanQuote st) = (ev2, Inr s1) \<and>
           step3_swapUniswap ls prov (outputAmount s1) = (ev3, Inr s2) \<and>
           ethReceived st = outputAmount s1 \<and> usdcReceived st = outputAmount s2 \<and>
           profit st = usdcReceived st - flashLoanAmount this \<and>
           ev = ev1 @ ev2 @ ev3 @ verdict this st"
  using assms
  by (auto simp: checkTry_def andThen_eq_Inr step4_eq verdict_def)

lemma checkTry_events:
  assumes "checkTry this ls prov = (ev, Inr st)"
  shows "ev =
     [FlashLoanQuotationCall \<lparr>token = TOKENS_USDC, amount = flashLoanAmount this\<rparr>,
      Log (FlashLoanBorrowed (formatUnits (quoted_amount (flashLoanQuote st)) 6) ''USDC''),
      SwapQuotationCall sushiswapLogic
        \<lparr>inputToken = TOKENS_USDC, outputToken = TOKENS_ETH,
         swap_amount = quoted_amount (flashLoanQuote st),
         pairAddress = Some SUSHISWAP_V2_PAIR_ADDRESS, poolAddress = None\<rparr>,
      Log (Swap1 (formatUnits (quoted_amount (flashLoanQuote st)) 6) ''USDC''
                 (formatUnits (ethReceived st) 18) ''ETH''),
      SwapQuotationCall uniswapLogic
        \<lparr>inputToken = TOKENS_ETH, outputToken = TOKENS_USDC,
         swap_amount = ethReceived st,
         pairAddress = None, poolAddress = Some UNISWAP_V3_POOL_ADDRESS\<rparr>,
      Log (Swap2 (formatUnits (ethReceived st) 18) ''ETH''
                 (formatUnits (usdcReceived st) 6) ''USDC'')]
     @ verdict this st"
proof -
  from checkTry_Inr [OF assms] obtain ev1 ev2 ev3 s1 s2 where
    s1: "step1_flashLoan this ls prov = (ev1, Inr (flashLoanQuote st))" and
    s2: "step2_swapSushiswap ls prov (flashLoanQuote st) = (ev2, Inr s1)" and
    s3: "step3_swapUniswap ls prov (outputAmount s1) = (ev3, Inr s2)" and
    eth: "ethReceived st = outputAmount s1" and usdc: "usdcReceived st = outputAmount s2" and
    ev: "ev = ev1 @ ev2 @ ev3 @ verdict this st"
    by blast
  show ?thesis
    unfolding ev step1_Inr [OF s1] step2_Inr [OF s2] step3_Inr [OF s3] eth usdc by simp
qed

lemma checkTry_Inl:
  assumes "checkTry this ls prov = (ev, Inl e)"
  shows "reportsProfit ev = False \<and> reportsNoProfit ev = False \<and> instructions ev = [] \<and>
         errorLogs ev = []"
proof -
  from assms consider
    (a) "step1_flashLoan this ls prov = (ev, Inl e)"
  | (b) ev1 q ev2 where "step1_flashLoan this ls prov = (ev1, Inr q)"
      "step2_swapSushiswap ls prov q = (ev2, Inl e)" "ev = ev1 @ ev2"
  | (c) ev1 q ev2 s1 ev3 where "step1_flashLoan this ls prov = (ev1, Inr q)"
      "step2_swapSushiswap ls prov q = (ev2, Inr s1)"
      "step3_swapUniswap ls prov (outputAmount s1) = (ev3, Inl e)" "ev = ev1 @ ev2 @ ev3"
    by (auto simp: checkTry_def andThen_eq_Inl step4_eq)
  then show ?thesis
  proof cases
    case a
    from step1_Inl [OF a] show ?thesis
      by (auto simp: reportsProfit_def reportsNoProfit_def)
  next
    case b
    from step1_Inr [OF b(1)] step2_Inl [OF b(2)] b(3) show ?thesis
      by (auto simp: reportsProfit_def reportsNoProfit_def)
  next
    case c
    from step1_Inr [OF c(1)] step2_Inr [OF c(2)] step3_Inl [OF c(3)] c(4) show ?thesis
      by (auto simp: reportsProfit_def reportsNoProfit_def)
  qed
qed

lemma checkArbitrageOpportunity_Inr:
  "checkTry this ls prov = (ev, Inr st) \<Longrightarrow> checkArbitrageOpportunity this ls prov = (ev, Inr None)"
  by (simp add: checkArbitrageOpportunity_def)

lemma checkArbitrageOpportunity_Inl:
  "checkTry this ls prov = (ev, Inl e) \<Longrightarrow> message e = Inr m \<Longrightarrow>
   checkArbitrageOpportunity this ls prov =
     (ev @ [ErrorLog ''Error checking arbitrage opportunity:'' m], Inr None)"
  by (simp add: checkArbitrageOpportunity_def)


subsection \<open>Reading the verdict\<close>

lemma reportsProfit_Cons: "reportsProfit (e # es) = (isProfitLine e \<or> reportsProfit es)"
  by (simp add: reportsProfit_def)

lemma reportsNoProfit_Cons:
  "reportsNoProfit (e # es) = (e = Log NoProfitDetected \<or> reportsNoProfit es)"
  by (simp add: reportsNoProfit_def)

lemma reportsProfit_append: "reportsProfit (xs @ ys) = (reportsProfit xs \<or> reportsProfit ys)"
  by (simp add: reportsProfit_def)

lemma instructions_append: "instructions (xs @ ys) = instructions xs @ instructions ys"
  by (induction xs rule: instructions.induct) simp_all

lemma verdict_reportsProfit: "reportsProfit (verdict this st) = (0 < profit st)"
  by (simp add: verdict_def reportsProfit_def)

lemma verdict_reportsNoProfit: "reportsNoProfit (verdict this st) = (profit st \<le> 0)"
  by (auto simp: verdict_def reportsNoProfit_def outputFurucomboInstructions_def)

lemma verdict_instructions:
  "instructions (verdict this st) =
     (if 0 < profit st
      then outputFurucomboInstructions (formatUnits (quoted_amount (flashLoanQuote st)) 6)
             (formatUnits (ethReceived st) 18) (formatUnits (usdcReceived st) 6)
      else [])"
  by (simp add: verdict_def outputFurucomboInstructions_def)

lemma verdict_calls: "swapCalls (verdict this st) = [] \<and> flashLoanCalls (verdict this st) = []"
  by (simp add: verdict_def outputFurucomboInstructions_def)

subsection \<open>The run on MockLogic alone\<close>

lemma mock_step1:
  "step1_flashLoan this \<lparr>BalancerV2FlashLoanLogic = MockLogicFn, SushiswapV2SwapLogic = s,
       UniswapV3SwapLogic = u\<rparr> prov =
     ([FlashLoanQuotationCall \<lparr>token = TOKENS_USDC, amount = flashLoanAmount this\<rparr>,
       Log (FlashLoanBorrowed (formatUnits (flashLoanAmount this) 6) ''USDC'')],
      Inr \<lparr>quoted_amount = flashLoanAmount this\<rparr>)"
  by (simp add: step1_flashLoan_def andThen_def noEvents_def consoleLog_def
      callFlashLoanQuotation_def MockLogic_def MockLogic_getFlashLoanQuotation_def TOKENS_USDC_def)

lemma fixed_step1:
  "step1_flashLoan this \<lparr>BalancerV2FlashLoanLogic = fixedQuoteLogic a, SushiswapV2SwapLogic = s,
       UniswapV3SwapLogic = u\<rparr> prov =
     ([FlashLoanQuotationCall \<lparr>token = TOKENS_USDC, amount = flashLoanAmount this\<rparr>,
       Log (FlashLoanBorrowed (formatUnits a 6) ''USDC'')],
      Inr \<lparr>quoted_amount = a\<rparr>)"
  by (simp add: step1_flashLoan_def andThen_def noEvents_def consoleLog_def
      callFlashLoanQuotation_def fixedQuoteLogic_def TOKENS_USDC_def)

lemma mock_step2:
  "SushiswapV2SwapLogic ls = MockLogicFn \<Longrightarrow>
   step2_swapSushiswap ls prov q =
     ([SwapQuotationCall sushiswapLogic
         \<lparr>inputToken = TOKENS_USDC, outputToken = TOKENS_ETH, swap_amount = quoted_amount q,
          pairAddress = Some SUSHISWAP_V2_PAIR_ADDRESS, poolAddress = None\<rparr>,
       Log (Swap1 (formatUnits (quoted_amount q) 6) ''USDC''
                  (formatUnits 40000000000000000 18) ''ETH'')],
      Inr \<lparr>outputAmount = 40000000000000000\<rparr>)"
  by (simp add: step2_swapSushiswap_def andThen_def noEvents_def consoleLog_def
      callSwapQuotation_def MockLogic_def MockLogic_getSwapQuotation_eq TOKENS_USDC_def TOKENS_ETH_def)

lemma mock_step3:
  "UniswapV3SwapLogic ls = MockLogicFn \<Longrightarrow>
   step3_swapUniswap ls prov eth =
     ([SwapQuotationCall uniswapLogic
         \<lparr>inputToken = TOKENS_ETH, outputToken = TOKENS_USDC, swap_amount = eth,
          pairAddress = None, poolAddress = Some UNISWAP_V3_POOL_ADDRESS\<rparr>,
       Log (Swap2 (formatUnits eth 18) ''ETH'' (formatUnits 104000000 6) ''USDC'')],
      Inr \<lparr>outputAmount = 104000000\<rparr>)"
  by (simp add: step3_swapUniswap_def andThen_def noEvents_def consoleLog_def
      callSwapQuotation_def MockLogic_def MockLogic_getSwapQuotation_eq TOKENS_USDC_def TOKENS_ETH_def)

lemma fixed_step3:
  "UniswapV3SwapLogic ls = fixedQuoteLogic a \<Longrightarrow>
   step3_swapUniswap ls prov eth =
     ([SwapQuotationCall uniswapLogic
         \<lparr>inputToken = TOKENS_ETH, outputToken = TOKENS_USDC, swap_amount = eth,
          pairAddress = None, poolAddress = Some UNISWAP_V3_POOL_ADDRESS\<rparr>,
       Log (Swap2 (formatUnits eth 18) ''ETH'' (formatUnits a 6) ''USDC'')],
      Inr \<lparr>outputAmount = a\<rparr>)"
  by (simp add: step3_swapUniswap_def andThen_def noEvents_def consoleLog_def
      callSwapQuotation_def fixedQuoteLogic_def TOKENS_USDC_def TOKENS_ETH_def)

text \<open>The events of the run of \<open>bot100\<close> on MockLogic alone.\<close>

lemma mock_checkTry:
  "checkTry bot100 allMock prov =
     ([FlashLoanQuotationCall \<lparr>token = TOKENS_USDC, amount = 100000000\<rparr>,
       Log (FlashLoanBorrowed (formatUnits 100000000 6) ''USDC''),
       SwapQuotationCall sushiswapLogic
         \<lparr>inputToken = TOKENS_USDC, outputToken = TOKENS_ETH, swap_amount = 100000000,
          pairAddress = Some SUSHISWAP_V2_PAIR_ADDRESS, poolAddress = None\<rparr>,
       Log (Swap1 (formatUnits 100000000 6) ''USDC'' (formatUnits 40000000000000000 18) ''ETH''),
       SwapQuotationCall uniswapLogic
         \<lparr>inputToken = TOKENS_ETH, outputToken = TOKENS_USDC, swap_amount = 40000000000000000,
          pairAddress = None, poolAddress = Some UNISWAP_V3_POOL_ADDRESS\<rparr>,
       Log (Swap2 (formatUnits 40000000000000000 18) ''ETH'' (formatUnits 104000000 6) ''USDC''),
       Log (Profit (formatUnits 4000000 6) ''USDC'')]
      @ map Log (outputFurucomboInstructions (formatUnits 100000000 6)
                   (formatUnits 40000000000000000 18) (formatUnits 104000000 6)),
      Inr \<lparr>flashLoanQuote = \<lparr>quoted_amount = 100000000\<rparr>, ethReceived = 40000000000000000,
           usdcReceived = 104000000, profit = 4000000\<rparr>)"
  by (simp add: checkTry_def allMock_def mock_step1 mock_step2 mock_step3 step4_eq andThen_def
      bot100_def)

lemma fixed_checkTry:
  "snd (checkTry bot100 \<lparr>BalancerV2FlashLoanLogic = fixedQuoteLogic a,
          SushiswapV2SwapLogic = MockLogicFn, UniswapV3SwapLogic = MockLogicFn\<rparr> prov) =
     Inr \<lparr>flashLoanQuote = \<lparr>quoted_amount = a\<rparr>, ethReceived = 40000000000000000,
          usdcReceived = 104000000, profit = 4000000\<rparr>"
  by (simp add: checkTry_def fixed_step1 mock_step2 mock_step3 step4_eq andThen_def bot100_def)

lemma breakEven_checkTry:
  "snd (checkTry bot100 \<lparr>BalancerV2FlashLoanLogic = MockLogicFn,
          SushiswapV2SwapLogic = MockLogicFn, UniswapV3SwapLogic = fixedQuoteLogic 100000000\<rparr> prov) =
     Inr \<lparr>flashLoanQuote = \<lparr>quoted_amount = 100000000\<rparr>, ethReceived = 40000000000000000,
          usdcReceived = 100000000, profit = 0\<rparr>"
  by (simp add: checkTry_def mock_step1 mock_step2 fixed_step3 step4_eq andThen_def bot100_def)


lemma mock_swaps_run:
  assumes m: "SushiswapV2SwapLogic ls = MockLogicFn" "UniswapV3SwapLogic ls = MockLogicFn"
    and t: "checkTry this ls prov = (ev, Inr st)"
  shows "ethReceived st = 40000000000000000 \<and> usdcReceived st = 104000000 \<and>
         profit st = 104000000 - flashLoanAmount this \<and>
         reportsProfit ev = (0 < 104000000 - flashLoanAmount this)"
proof -
  from checkTry_Inr [OF t] obtain ev1 ev2 ev3 s1 s2 where
    s2: "step2_swapSushiswap ls prov (flashLoanQuote st) = (ev2, Inr s1)" and
    s3: "step3_swapUniswap ls prov (outputAmount s1) = (ev3, Inr s2)" and
    eth: "ethReceived st = outputAmount s1" and usdc: "usdcReceived st = outputAmount s2" and
    p: "profit st = usdcReceived st - flashLoanAmount this"
    by blast
  from s2 have e1: "outputAmount s1 = 40000000000000000"
    unfolding mock_step2 [OF m(1)] by auto
  from s3 have e2: "outputAmount s2 = 104000000"
    unfolding mock_step3 [OF m(2)] by auto
  have rp: "reportsProfit ev = (0 < profit st)"
    by (subst checkTry_events [OF t]) (simp add: reportsProfit_Cons verdict_reportsProfit)
  show ?thesis unfolding rp p eth usdc e1 e2 by simp
qed

subsection \<open>Runs in which no logic class is a constructor of the library\<close>







subsection \<open>Loading and the whole script\<close>






lemma main_loaded:
  assumes "loadLogics required = (ev, Inr ls)"
  shows "main required env = (ev @ fst (run bot100 ls (provider env)), snd (run bot100 ls (provider env)))"
  using assms
  by (simp add: main_def andThen_def noEvents_def newFlashLoanArbitrageBot_eq split: prod.splits)


lemma fixedFinal_checkTry:
  "snd (checkTry bot100 \<lparr>BalancerV2FlashLoanLogic = MockLogicFn,
          SushiswapV2SwapLogic = MockLogicFn, UniswapV3SwapLogic = fixedQuoteLogic a\<rparr> prov) =
     Inr \<lparr>flashLoanQuote = \<lparr>quoted_amount = 100000000\<rparr>, ethReceived = 40000000000000000,
          usdcReceived = a, profit = a - 100000000\<rparr>"
  by (simp add: checkTry_def mock_step1 mock_step2 fixed_step3 step4_eq andThen_def bot100_def)

lemma rejectsUndefined_step2:
  "SushiswapV2SwapLogic ls = rejectsUndefinedLogic \<Longrightarrow>
   step2_swapSushiswap ls prov q =
     ([SwapQuotationCall sushiswapLogic
         \<lparr>inputToken = TOKENS_USDC, outputToken = TOKENS_ETH, swap_amount = quoted_amount q,
          pairAddress = Some SUSHISWAP_V2_PAIR_ADDRESS, poolAddress = None\<rparr>],
      Inl Nullish)"
  by (simp add: step2_swapSushiswap_def andThen_def noEvents_def callSwapQuotation_def
      rejectsUndefinedLogic_def)

subsection \<open>A failed swap A\<close>

text \<open>
  When the flash-loan step succeeds and the Sushiswap step throws, no request goes to the
  Uniswap logic and nothing but the two steps' events is produced by the \<^verbatim>\<open>try\<close> block;
  when what was thrown has a message, the call and \<^verbatim>\<open>run\<close> complete normally.
\<close>

lemma swapA_failure_checkTry:
  assumes "step1_flashLoan this ls prov = (ev1, Inr q)"
    and "step2_swapSushiswap ls prov q = (ev2, Inl e)"
  shows "checkTry this ls prov = (ev1 @ ev2, Inl e) \<and>
         uniswapLogic \<notin> set (map fst (swapCalls (ev1 @ ev2))) \<and>
         instructions (ev1 @ ev2) = [] \<and> reportsProfit (ev1 @ ev2) = False \<and>
         reportsNoProfit (ev1 @ ev2) = False"
proof -
  have t: "checkTry this ls prov = (ev1 @ ev2, Inl e)"
    by (simp add: checkTry_def andThen_def assms)
  have u: "uniswapLogic \<notin> set (map fst (swapCalls (ev1 @ ev2)))"
    using step1_Inr [OF assms(1)] step2_Inl [OF assms(2)] by auto
  from t u checkTry_Inl [OF t] show ?thesis by simp
qed

lemma swapA_error_stops_the_run:
  assumes "step1_flashLoan this ls prov = (ev1, Inr q)"
    and "step2_swapSushiswap ls prov q = (ev2, Inl e)"
    and "message e = Inr m"
  shows "checkArbitrageOpportunity this ls prov =
           (ev1 @ ev2 @ [ErrorLog ''Error checking arbitrage opportunity:'' m], Inr None) \<and>
         run this ls prov =
           (Log StartingBot # ev1 @ ev2 @
              [ErrorLog ''Error checking arbitrage opportunity:'' m, Log BotRunCompleted],
            Inr ())"
proof -
  from swapA_failure_checkTry [OF assms(1,2)]
  have t: "checkTry this ls prov = (ev1 @ ev2, Inl e)" by blast
  have c: "checkArbitrageOpportunity this ls prov =
           (ev1 @ ev2 @ [ErrorLog ''Error checking arbitrage opportunity:'' m], Inr None)"
    using checkArbitrageOpportunity_Inl [OF t assms(3)] by simp
  then show ?thesis
    by (simp add: run_def andThen_def consoleLog_def)
qed

section \<open>The claims\<close>

text \<open>
  Throughout, a successful evaluation is a run whose \<^verbatim>\<open>try\<close> block completes:
  \<open>checkTry this ls prov = (ev, Inr st)\<close>, with \<open>ev\<close> the events of the run and \<open>st\<close>
  the values bound by the block. The only statements of the block that can throw are the
  three constructions and the three quotation calls.
\<close>

text \<open>
  C1. The claim: the computed profit is the final amount minus the borrowed amount the
  flash-loan quotation reports, also when that differs from the configured amount.
  Line 84 subtracts \<^verbatim>\<open>this.flashLoanAmount\<close> instead. With a flash-loan logic that
  reports 110 USDC borrowed for the 100 USDC asked, and MockLogic for the swaps, the final
  amount is 104 USDC: the script computes a profit of 4 USDC where final minus borrowed
  is -6 USDC, reports the profit and prints instructions whose last cube says
  "Output: 104 USDC (ensure > 110 for profit)".
\<close>

theorem profit_subtracts_configured_amount:
  "snd (checkTry bot100 \<lparr>BalancerV2FlashLoanLogic = fixedQuoteLogic 110000000,
          SushiswapV2SwapLogic = MockLogicFn, UniswapV3SwapLogic = MockLogicFn\<rparr> (provider None)) =
     Inr \<lparr>flashLoanQuote = \<lparr>quoted_amount = 110000000\<rparr>, ethReceived = 40000000000000000,
          usdcReceived = 104000000, profit = 4000000\<rparr> \<and>
   (104000000 :: int) - 110000000 = - 6000000 \<and>
   reportsProfit (fst (checkTry bot100 \<lparr>BalancerV2FlashLoanLogic = fixedQuoteLogic 110000000,
          SushiswapV2SwapLogic = MockLogicFn, UniswapV3SwapLogic = MockLogicFn\<rparr> (provider None))) \<and>
   instructions (fst (checkTry bot100 \<lparr>BalancerV2FlashLoanLogic = fixedQuoteLogic 110000000,
          SushiswapV2SwapLogic = MockLogicFn, UniswapV3SwapLogic = MockLogicFn\<rparr> (provider None))) =
     outputFurucomboInstructions (formatUnits 110000000 6) (formatUnits 40000000000000000 18)
       (formatUnits 104000000 6)"
proof -
  let ?ls = "\<lparr>BalancerV2FlashLoanLogic = fixedQuoteLogic 110000000,
          SushiswapV2SwapLogic = MockLogicFn, UniswapV3SwapLogic = MockLogicFn\<rparr>"
  let ?st = "\<lparr>flashLoanQuote = \<lparr>quoted_amount = 110000000\<rparr>, ethReceived = 40000000000000000,
          usdcReceived = 104000000, profit = 4000000\<rparr>"
  have r: "snd (checkTry bot100 ?ls (provider None)) = Inr ?st"
    by (rule fixed_checkTry)
  then have c: "checkTry bot100 ?ls (provider None) = (fst (checkTry bot100 ?ls (provider None)), Inr ?st)"
    by (metis prod.collapse)
  have "reportsProfit (fst (checkTry bot100 ?ls (provider None)))"
    by (subst checkTry_events [OF c]) (simp add: reportsProfit_Cons verdict_reportsProfit)
  moreover have "instructions (fst (checkTry bot100 ?ls (provider None))) =
     outputFurucomboInstructions (formatUnits 110000000 6) (formatUnits 40000000000000000 18)
       (formatUnits 104000000 6)"
    by (subst checkTry_events [OF c]) (simp add: instructions_append verdict_instructions)
  ultimately show ?thesis using r by simp
qed







text \<open>
  C4. In every successful evaluation the computed profit is the amount the Uniswap
  logic answered for swap B minus the bot's configured amount, and the run reports a
  profit exactly when that profit is strictly positive (the final amount exceeds the
  configured amount) and reports "No profit detected." exactly when it is zero or
  negative; it reports one of the two, never both, and a profit of exactly zero is not
  reported as a profit.
\<close>

theorem profitable_iff_profit_positive:
  assumes "checkTry this ls prov = (ev, Inr st)"
  shows "profit st = usdcReceived st - flashLoanAmount this \<and>
         (\<exists>l h. instantiate ''UniswapV3SwapLogic'' (UniswapV3SwapLogic ls) CHAIN_ID prov = Inr l \<and>
            getSwapQuotation l = Some h \<and>
            h \<lparr>inputToken = TOKENS_ETH, outputToken = TOKENS_USDC,
               swap_amount = ethReceived st,
               pairAddress = None, poolAddress = Some UNISWAP_V3_POOL_ADDRESS\<rparr> =
              Inr \<lparr>outputAmount = usdcReceived st\<rparr>) \<and>
         (reportsProfit ev \<longleftrightarrow> 0 < profit st) \<and>
         (reportsProfit ev \<longleftrightarrow> flashLoanAmount this < usdcReceived st) \<and>
         (reportsNoProfit ev \<longleftrightarrow> profit st \<le> 0) \<and>
         (reportsNoProfit ev \<longleftrightarrow> usdcReceived st \<le> flashLoanAmount this) \<and>
         (reportsProfit ev \<longleftrightarrow> \<not> reportsNoProfit ev) \<and>
         (profit st = 0 \<longrightarrow> \<not> reportsProfit ev \<and> reportsNoProfit ev) \<and>
         fst (checkArbitrageOpportunity this ls prov) = ev"
proof -
  from checkTry_Inr [OF assms] obtain ev3 and s1 :: swap_quote and s2 where
    s3: "step3_swapUniswap ls prov (outputAmount s1) = (ev3, Inr s2)" and
    eth: "ethReceived st = outputAmount s1" and usdc: "usdcReceived st = outputAmount s2" and
    d: "profit st = usdcReceived st - flashLoanAmount this"
    by blast
  have e2: "s2 = \<lparr>outputAmount = usdcReceived st\<rparr>" by (simp add: usdc)
  from step3_answer [OF s3] have
    a: "\<exists>l h. instantiate ''UniswapV3SwapLogic'' (UniswapV3SwapLogic ls) CHAIN_ID prov = Inr l \<and>
            getSwapQuotation l = Some h \<and>
            h \<lparr>inputToken = TOKENS_ETH, outputToken = TOKENS_USDC,
               swap_amount = ethReceived st,
               pairAddress = None, poolAddress = Some UNISWAP_V3_POOL_ADDRESS\<rparr> =
              Inr \<lparr>outputAmount = usdcReceived st\<rparr>"
    unfolding eth [symmetric] e2 [symmetric] by blast
  have p: "reportsProfit ev \<longleftrightarrow> 0 < profit st"
    by (subst checkTry_events [OF assms]) (simp add: reportsProfit_Cons verdict_reportsProfit)
  have n: "reportsNoProfit ev \<longleftrightarrow> profit st \<le> 0"
    by (subst checkTry_events [OF assms]) (simp add: reportsNoProfit_Cons verdict_reportsNoProfit)
  have p': "reportsProfit ev \<longleftrightarrow> flashLoanAmount this < usdcReceived st"
    unfolding p d by simp
  have n': "reportsNoProfit ev \<longleftrightarrow> usdcReceived st \<le> flashLoanAmount this"
    unfolding n d by simp
  have x: "reportsProfit ev \<longleftrightarrow> \<not> reportsNoProfit ev"
    unfolding p n by auto
  have z: "profit st = 0 \<longrightarrow> \<not> reportsProfit ev \<and> reportsNoProfit ev"
    unfolding p n by simp
  have c: "fst (checkArbitrageOpportunity this ls prov) = ev"
    using checkArbitrageOpportunity_Inr [OF assms] by simp
  from d a p p' n n' x z c show ?thesis by blast
qed

theorem profitable_iff_profit_positive_witness:
  "reportsProfit (fst (checkTry bot100 allMock (provider None))) \<and>
   reportsNoProfit (fst (checkTry bot100 allMock (provider None))) = False \<and>
   snd (checkTry bot100 \<lparr>BalancerV2FlashLoanLogic = MockLogicFn,
          SushiswapV2SwapLogic = MockLogicFn, UniswapV3SwapLogic = fixedQuoteLogic 100000000\<rparr>
          (provider None)) =
     Inr \<lparr>flashLoanQuote = \<lparr>quoted_amount = 100000000\<rparr>, ethReceived = 40000000000000000,
          usdcReceived = 100000000, profit = 0\<rparr> \<and>
   reportsProfit (fst (checkTry bot100 \<lparr>BalancerV2FlashLoanLogic = MockLogicFn,
          SushiswapV2SwapLogic = MockLogicFn, UniswapV3SwapLogic = fixedQuoteLogic 100000000\<rparr>
          (provider None))) = False \<and>
   reportsNoProfit (fst (checkTry bot100 \<lparr>BalancerV2FlashLoanLogic = MockLogicFn,
          SushiswapV2SwapLogic = MockLogicFn, UniswapV3SwapLogic = fixedQuoteLogic 100000000\<rparr>
          (provider None))) \<and>
   snd (checkTry bot100 \<lparr>BalancerV2FlashLoanLogic = MockLogicFn,
          SushiswapV2SwapLogic = MockLogicFn, UniswapV3SwapLogic = fixedQuoteLogic 99000000\<rparr>
          (provider None)) =
     Inr \<lparr>flashLoanQuote = \<lparr>quoted_amount = 100000000\<rparr>, ethReceived = 40000000000000000,
          usdcReceived = 99000000, profit = - 1000000\<rparr> \<and>
   reportsProfit (fst (checkTry bot100 \<lparr>BalancerV2FlashLoanLogic = MockLogicFn,
          SushiswapV2SwapLogic = MockLogicFn, UniswapV3SwapLogic = fixedQuoteLogic 99000000\<rparr>
          (provider None))) = False \<and>
   reportsNoProfit (fst (checkTry bot100 \<lparr>BalancerV2FlashLoanLogic = MockLogicFn,
          SushiswapV2SwapLogic = MockLogicFn, UniswapV3SwapLogic = fixedQuoteLogic 99000000\<rparr>
          (provider None)))"
proof -
  let ?ls0 = "\<lparr>BalancerV2FlashLoanLogic = MockLogicFn,
          SushiswapV2SwapLogic = MockLogicFn, UniswapV3SwapLogic = fixedQuoteLogic 100000000\<rparr>"
  let ?st0 = "\<lparr>flashLoanQuote = \<lparr>quoted_amount = 100000000\<rparr>, ethReceived = 40000000000000000,
          usdcReceived = 100000000, profit = 0\<rparr>"
  let ?ls1 = "\<lparr>BalancerV2FlashLoanLogic = MockLogicFn,
          SushiswapV2SwapLogic = MockLogicFn, UniswapV3SwapLogic = fixedQuoteLogic 99000000\<rparr>"
  let ?st1 = "\<lparr>flashLoanQuote = \<lparr>quoted_amount = 100000000\<rparr>, ethReceived = 40000000000000000,
          usdcReceived = 99000000, profit = - 1000000\<rparr>"
  let ?stA = "\<lparr>flashLoanQuote = \<lparr>quoted_amount = 100000000\<rparr>, ethReceived = 40000000000000000,
          usdcReceived = 104000000, profit = 4000000\<rparr>"
  have "snd (checkTry bot100 allMock (provider None)) = Inr ?stA"
    by (simp add: mock_checkTry)
  then have cA: "checkTry bot100 allMock (provider None) =
      (fst (checkTry bot100 allMock (provider None)), Inr ?stA)"
    by (metis prod.collapse)
  have r0: "snd (checkTry bot100 ?ls0 (provider None)) = Inr ?st0"
    using fixedFinal_checkTry [of 100000000 "provider None"] by simp
  then have c0: "checkTry bot100 ?ls0 (provider None) =
      (fst (checkTry bot100 ?ls0 (provider None)), Inr ?st0)"
    by (metis prod.collapse)
  have r1: "snd (checkTry bot100 ?ls1 (provider None)) = Inr ?st1"
    using fixedFinal_checkTry [of 99000000 "provider None"] by simp
  then have c1: "checkTry bot100 ?ls1 (provider None) =
      (fst (checkTry bot100 ?ls1 (provider None)), Inr ?st1)"
    by (metis prod.collapse)
  from profitable_iff_profit_positive [OF cA] have
    a: "reportsProfit (fst (checkTry bot100 allMock (provider None))) \<and>
        reportsNoProfit (fst (checkTry bot100 allMock (provider None))) = False"
    by simp
  from profitable_iff_profit_positive [OF c0] have
    z: "reportsProfit (fst (checkTry bot100 ?ls0 (provider None))) = False \<and>
        reportsNoProfit (fst (checkTry bot100 ?ls0 (provider None)))"
    by simp
  from profitable_iff_profit_positive [OF c1] have
    n: "reportsProfit (fst (checkTry bot100 ?ls1 (provider None))) = False \<and>
        reportsNoProfit (fst (checkTry bot100 ?ls1 (provider None)))"
    by simp
  from a r0 z r1 n show ?thesis by blast
qed

text \<open>
  C5. In every successful evaluation the three quotation requests are chained exactly:
  one flash-loan request for the configured amount of USDC; then one swap request to the
  Sushiswap logic whose input token is that same USDC and whose amount is the amount of
  the flash-loan quotation's answer; then one swap request to the Uniswap logic whose
  amount is the output amount of the first swap's answer. The amounts are handed on as
  they are.
\<close>

theorem quotation_calls_chained:
  assumes "checkTry this ls prov = (ev, Inr st)"
  shows "flashLoanCalls ev = [\<lparr>token = TOKENS_USDC, amount = flashLoanAmount this\<rparr>] \<and>
         swapCalls ev =
           [(sushiswapLogic,
             \<lparr>inputToken = TOKENS_USDC, outputToken = TOKENS_ETH,
              swap_amount = quoted_amount (flashLoanQuote st),
              pairAddress = Some SUSHISWAP_V2_PAIR_ADDRESS, poolAddress = None\<rparr>),
            (uniswapLogic,
             \<lparr>inputToken = TOKENS_ETH, outputToken = TOKENS_USDC,
              swap_amount = ethReceived st,
              pairAddress = None, poolAddress = Some UNISWAP_V3_POOL_ADDRESS\<rparr>)] \<and>
         (\<exists>l f. instantiate ''BalancerV2FlashLoanLogic'' (BalancerV2FlashLoanLogic ls) CHAIN_ID prov = Inr l \<and>
            getFlashLoanQuotation l = Some f \<and>
            f \<lparr>token = TOKENS_USDC, amount = flashLoanAmount this\<rparr> = Inr (flashLoanQuote st)) \<and>
         (\<exists>l g. instantiate ''SushiswapV2SwapLogic'' (SushiswapV2SwapLogic ls) CHAIN_ID prov = Inr l \<and>
            getSwapQuotation l = Some g \<and>
            g \<lparr>inputToken = TOKENS_USDC, outputToken = TOKENS_ETH,
               swap_amount = quoted_amount (flashLoanQuote st),
               pairAddress = Some SUSHISWAP_V2_PAIR_ADDRESS, poolAddress = None\<rparr> =
              Inr \<lparr>outputAmount = ethReceived st\<rparr>) \<and>
         (\<exists>l h. instantiate ''UniswapV3SwapLogic'' (UniswapV3SwapLogic ls) CHAIN_ID prov = Inr l \<and>
            getSwapQuotation l = Some h \<and>
            h \<lparr>inputToken = TOKENS_ETH, outputToken = TOKENS_USDC,
               swap_amount = ethReceived st,
               pairAddress = None, poolAddress = Some UNISWAP_V3_POOL_ADDRESS\<rparr> =
              Inr \<lparr>outputAmount = usdcReceived st\<rparr>)"
proof -
  from checkTry_Inr [OF assms] obtain ev1 ev2 ev3 s1 s2 where
    s1: "step1_flashLoan this ls prov = (ev1, Inr (flashLoanQuote st))" and
    s2: "step2_swapSushiswap ls prov (flashLoanQuote st) = (ev2, Inr s1)" and
    s3: "step3_swapUniswap ls prov (outputAmount s1) = (ev3, Inr s2)" and
    eth: "ethReceived st = outputAmount s1" and usdc: "usdcReceived st = outputAmount s2"
    by blast
  have e1: "s1 = \<lparr>outputAmount = ethReceived st\<rparr>" by (simp add: eth)
  have e2: "s2 = \<lparr>outputAmount = usdcReceived st\<rparr>" by (simp add: usdc)
  have f: "flashLoanCalls ev = [\<lparr>token = TOKENS_USDC, amount = flashLoanAmount this\<rparr>]"
    by (subst checkTry_events [OF assms]) (simp add: verdict_calls)
  have c: "swapCalls ev =
           [(sushiswapLogic,
             \<lparr>inputToken = TOKENS_USDC, outputToken = TOKENS_ETH,
              swap_amount = quoted_amount (flashLoanQuote st),
              pairAddress = Some SUSHISWAP_V2_PAIR_ADDRESS, poolAddress = None\<rparr>),
            (uniswapLogic,
             \<lparr>inputToken = TOKENS_ETH, outputToken = TOKENS_USDC,
              swap_amount = ethReceived st,
              pairAddress = None, poolAddress = Some UNISWAP_V3_POOL_ADDRESS\<rparr>)]"
    by (subst checkTry_events [OF assms]) (simp add: verdict_calls)
  from step1_answer [OF s1] step2_answer [OF s2] step3_answer [OF s3] f c
  show ?thesis unfolding eth [symmetric] e1 [symmetric] e2 [symmetric] by blast
qed

theorem quotation_calls_chained_witness:
  "swapCalls (fst (checkTry bot100 \<lparr>BalancerV2FlashLoanLogic = fixedQuoteLogic 110000000,
          SushiswapV2SwapLogic = MockLogicFn, UniswapV3SwapLogic = MockLogicFn\<rparr> (provider None))) =
     [(sushiswapLogic,
       \<lparr>inputToken = TOKENS_USDC, outputToken = TOKENS_ETH, swap_amount = 110000000,
        pairAddress = Some SUSHISWAP_V2_PAIR_ADDRESS, poolAddress = None\<rparr>),
      (uniswapLogic,
       \<lparr>inputToken = TOKENS_ETH, outputToken = TOKENS_USDC, swap_amount = 40000000000000000,
        pairAddress = None, poolAddress = Some UNISWAP_V3_POOL_ADDRESS\<rparr>)] \<and>
   flashLoanCalls (fst (checkTry bot100 \<lparr>BalancerV2FlashLoanLogic = fixedQuoteLogic 110000000,
          SushiswapV2SwapLogic = MockLogicFn, UniswapV3SwapLogic = MockLogicFn\<rparr> (provider None))) =
     [\<lparr>token = TOKENS_USDC, amount = 100000000\<rparr>]"
proof -
  let ?ls = "\<lparr>BalancerV2FlashLoanLogic = fixedQuoteLogic 110000000,
          SushiswapV2SwapLogic = MockLogicFn, UniswapV3SwapLogic = MockLogicFn\<rparr>"
  let ?st = "\<lparr>flashLoanQuote = \<lparr>quoted_amount = 110000000\<rparr>, ethReceived = 40000000000000000,
          usdcReceived = 104000000, profit = 4000000\<rparr>"
  have "snd (checkTry bot100 ?ls (provider None)) = Inr ?st"
    by (rule fixed_checkTry)
  then have c: "checkTry bot100 ?ls (provider None) = (fst (checkTry bot100 ?ls (provider None)), Inr ?st)"
    by (metis prod.collapse)
  note t = quotation_calls_chained [OF c]
  from t have a: "flashLoanCalls (fst (checkTry bot100 ?ls (provider None))) =
      [\<lparr>token = TOKENS_USDC, amount = flashLoanAmount bot100\<rparr>]"
    by (rule conjunct1)
  from t have b: "swapCalls (fst (checkTry bot100 ?ls (provider None))) =
     [(sushiswapLogic,
       \<lparr>inputToken = TOKENS_USDC, outputToken = TOKENS_ETH,
        swap_amount = quoted_amount (flashLoanQuote ?st),
        pairAddress = Some SUSHISWAP_V2_PAIR_ADDRESS, poolAddress = None\<rparr>),
      (uniswapLogic,
       \<lparr>inputToken = TOKENS_ETH, outputToken = TOKENS_USDC, swap_amount = ethReceived ?st,
        pairAddress = None, poolAddress = Some UNISWAP_V3_POOL_ADDRESS\<rparr>)]"
    by (rule conjunct2 [THEN conjunct1])
  from a b show ?thesis by (simp add: bot100_def)
qed

text \<open>
  C6. In every run the instructions are printed if and only if the run reports a profit,
  and a run reports a profit only when it is a successful evaluation whose computed
  profit is strictly positive. When printed, they are the lines of
  \<^verbatim>\<open>outputFurucomboInstructions\<close> for the quoted borrowed amount, the intermediate and the
  final amount, and they tell the operator to add exactly three cubes, in this order: the
  Balancer V2 flash loan, the Sushiswap V2 swap, the Uniswap V3 swap (the closing
  "Review and execute" line and the note that follow add no cube). When no profit is
  reported, no instruction line is printed.
\<close>

theorem plan_iff_profitable:
  "(instructions (fst (checkArbitrageOpportunity this ls prov)) \<noteq> [] \<longleftrightarrow>
      reportsProfit (fst (checkArbitrageOpportunity this ls prov))) \<and>
   cubes (instructions (fst (checkArbitrageOpportunity this ls prov))) =
     (if reportsProfit (fst (checkArbitrageOpportunity this ls prov))
      then [(1, ''Flash Loan'', ''Balancer V2''), (2, ''Swap'', ''Sushiswap V2''),
            (3, ''Swap'', ''Uniswap V3'')]
      else []) \<and>
   (\<forall>ev st. checkTry this ls prov = (ev, Inr st) \<longrightarrow>
      (reportsProfit (fst (checkArbitrageOpportunity this ls prov)) \<longleftrightarrow> 0 < profit st) \<and>
      instructions (fst (checkArbitrageOpportunity this ls prov)) =
        (if 0 < profit st
         then outputFurucomboInstructions (formatUnits (quoted_amount (flashLoanQuote st)) 6)
                (formatUnits (ethReceived st) 18) (formatUnits (usdcReceived st) 6)
         else [])) \<and>
   (\<forall>ev e. checkTry this ls prov = (ev, Inl e) \<longrightarrow>
      instructions (fst (checkArbitrageOpportunity this ls prov)) = [])"
proof -
  obtain ev r where t: "checkTry this ls prov = (ev, r)"
    by (cases "checkTry this ls prov")
  show ?thesis
  proof (cases r)
    case (Inl e)
    have c: "fst (checkArbitrageOpportunity this ls prov) = ev \<or>
             (\<exists>m. fst (checkArbitrageOpportunity this ls prov) =
                ev @ [ErrorLog ''Error checking arbitrage opportunity:'' m])"
      using t [unfolded Inl]
      by (cases "message e") (simp_all add: checkArbitrageOpportunity_def)
    from checkTry_Inl [OF t [unfolded Inl]] c
    have i: "instructions (fst (checkArbitrageOpportunity this ls prov)) = []"
      and p: "reportsProfit (fst (checkArbitrageOpportunity this ls prov)) = False"
      by (auto simp: instructions_append reportsProfit_append reportsProfit_Cons
          reportsProfit_def)
    show ?thesis by (simp add: i p t Inl)
  next
    case (Inr st)
    have c: "fst (checkArbitrageOpportunity this ls prov) = ev"
      using checkArbitrageOpportunity_Inr [OF t [unfolded Inr]] by simp
    have p: "reportsProfit ev \<longleftrightarrow> 0 < profit st"
      by (subst checkTry_events [OF t [unfolded Inr]])
         (simp add: reportsProfit_Cons verdict_reportsProfit)
    have i: "instructions ev =
           (if 0 < profit st
            then outputFurucomboInstructions (formatUnits (quoted_amount (flashLoanQuote st)) 6)
                   (formatUnits (ethReceived st) 18) (formatUnits (usdcReceived st) 6)
            else [])"
      by (subst checkTry_events [OF t [unfolded Inr]]) (simp add: verdict_instructions)
    have k: "cubes (instructions ev) =
           (if 0 < profit st
            then [(1, ''Flash Loan'', ''Balancer V2''), (2, ''Swap'', ''Sushiswap V2''),
                  (3, ''Swap'', ''Uniswap V3'')]
            else [])"
      by (simp add: i outputFurucomboInstructions_def)
    have n: "instructions ev \<noteq> [] \<longleftrightarrow> 0 < profit st"
      by (simp add: i outputFurucomboInstructions_def)
    show ?thesis
      unfolding c using p i k n by (simp add: t Inr)
  qed
qed

theorem plan_iff_profitable_witness:
  "cubes (instructions (fst (checkArbitrageOpportunity bot100
      \<lparr>BalancerV2FlashLoanLogic = MockLogicFn, SushiswapV2SwapLogic = MockLogicFn,
       UniswapV3SwapLogic = fixedQuoteLogic 100000000\<rparr> (provider None)))) = [] \<and>
   instructions (fst (checkArbitrageOpportunity bot100
      \<lparr>BalancerV2FlashLoanLogic = MockLogicFn, SushiswapV2SwapLogic = MockLogicFn,
       UniswapV3SwapLogic = fixedQuoteLogic 100000000\<rparr> (provider None))) = [] \<and>
   reportsProfit (fst (checkArbitrageOpportunity bot100
      \<lparr>BalancerV2FlashLoanLogic = MockLogicFn, SushiswapV2SwapLogic = MockLogicFn,
       UniswapV3SwapLogic = fixedQuoteLogic 100000000\<rparr> (provider None))) = False \<and>
   cubes (instructions (fst (checkArbitrageOpportunity bot100 allMock (provider None)))) =
     [(1, ''Flash Loan'', ''Balancer V2''), (2, ''Swap'', ''Sushiswap V2''),
      (3, ''Swap'', ''Uniswap V3'')] \<and>
   reportsProfit (fst (checkArbitrageOpportunity bot100 allMock (provider None)))"
proof -
  let ?ls = "\<lparr>BalancerV2FlashLoanLogic = MockLogicFn,
          SushiswapV2SwapLogic = MockLogicFn, UniswapV3SwapLogic = fixedQuoteLogic 100000000\<rparr>"
  let ?st = "\<lparr>flashLoanQuote = \<lparr>quoted_amount = 100000000\<rparr>, ethReceived = 40000000000000000,
          usdcReceived = 100000000, profit = 0\<rparr>"
  let ?E = "fst (checkArbitrageOpportunity bot100 ?ls (provider None))"
  let ?M = "fst (checkArbitrageOpportunity bot100 allMock (provider None))"
  have "snd (checkTry bot100 ?ls (provider None)) = Inr ?st"
    by (rule breakEven_checkTry)
  then have c: "checkTry bot100 ?ls (provider None) = (fst (checkTry bot100 ?ls (provider None)), Inr ?st)"
    by (metis prod.collapse)
  note t = plan_iff_profitable [of bot100 ?ls "provider None"]
  from t c have "(reportsProfit ?E \<longleftrightarrow> 0 < profit ?st) \<and>
      instructions ?E =
        (if 0 < profit ?st
         then outputFurucomboInstructions (formatUnits (quoted_amount (flashLoanQuote ?st)) 6)
                (formatUnits (ethReceived ?st) 18) (formatUnits (usdcReceived ?st) 6)
         else [])"
    by blast
  then have z: "reportsProfit ?E = False \<and> instructions ?E = []"
    by simp
  then have z': "cubes (instructions ?E) = []"
    by simp
  note m = plan_iff_profitable [of bot100 allMock "provider None"]
  from m mock_checkTry [of "provider None"] have "reportsProfit ?M \<longleftrightarrow> 0 < (4000000 :: int)"
    by (metis locals.select_convs(4))
  then have r: "reportsProfit ?M" by simp
  from m have "cubes (instructions ?M) =
     (if reportsProfit ?M
      then [(1, ''Flash Loan'', ''Balancer V2''), (2, ''Swap'', ''Sushiswap V2''),
            (3, ''Swap'', ''Uniswap V3'')]
      else [])"
    by blast
  with r have k: "cubes (instructions ?M) =
     [(1, ''Flash Loan'', ''Balancer V2''), (2, ''Swap'', ''Sushiswap V2''),
      (3, ''Swap'', ''Uniswap V3'')]"
    by simp
  from z z' r k show ?thesis by blast
qed

text \<open>
  C7, as amended. The claim says a successful call returns a populated result value. The
  function has no \<^verbatim>\<open>return\<close> statement: every successful call completes with no value,
  as does \<^verbatim>\<open>run\<close>. What it found goes to the console: one line with the quoted borrowed
  amount, one with the intermediate amount, one with the final amount, and then either
  the profit (when it is strictly positive) or "No profit detected." (when it is not, and
  then the profit's value is not printed).
\<close>

theorem amounts_logged_not_returned:
  assumes "checkTry this ls prov = (ev, Inr st)"
  shows "checkArbitrageOpportunity this ls prov = (ev, Inr None) \<and>
         run this ls prov = (Log StartingBot # ev @ [Log BotRunCompleted], Inr ()) \<and>
         Log (FlashLoanBorrowed (formatUnits (quoted_amount (flashLoanQuote st)) 6) ''USDC'')
           \<in> set ev \<and>
         Log (Swap1 (formatUnits (quoted_amount (flashLoanQuote st)) 6) ''USDC''
                (formatUnits (ethReceived st) 18) ''ETH'') \<in> set ev \<and>
         Log (Swap2 (formatUnits (ethReceived st) 18) ''ETH''
                (formatUnits (usdcReceived st) 6) ''USDC'') \<in> set ev \<and>
         (if 0 < profit st
          then Log (Profit (formatUnits (profit st) 6) ''USDC'') \<in> set ev
          else Log NoProfitDetected \<in> set ev \<and> reportsProfit ev = False)"
proof -
  have c: "checkArbitrageOpportunity this ls prov = (ev, Inr None)"
    by (rule checkArbitrageOpportunity_Inr [OF assms])
  then have r: "run this ls prov = (Log StartingBot # ev @ [Log BotRunCompleted], Inr ())"
    by (simp add: run_def andThen_def consoleLog_def)
  have l: "Log (FlashLoanBorrowed (formatUnits (quoted_amount (flashLoanQuote st)) 6) ''USDC'')
           \<in> set ev \<and>
         Log (Swap1 (formatUnits (quoted_amount (flashLoanQuote st)) 6) ''USDC''
                (formatUnits (ethReceived st) 18) ''ETH'') \<in> set ev \<and>
         Log (Swap2 (formatUnits (ethReceived st) 18) ''ETH''
                (formatUnits (usdcReceived st) 6) ''USDC'') \<in> set ev"
    by (subst (1 2 3) checkTry_events [OF assms]) simp
  have v: "if 0 < profit st
          then Log (Profit (formatUnits (profit st) 6) ''USDC'') \<in> set ev
          else Log NoProfitDetected \<in> set ev \<and> reportsProfit ev = False"
    by (subst (1 2 3) checkTry_events [OF assms])
       (simp add: verdict_def reportsProfit_Cons reportsProfit_def)
  from c r l v show ?thesis by blast
qed

theorem amounts_logged_not_returned_witness:
  "checkArbitrageOpportunity bot100 allMock (provider None) =
     (fst (checkTry bot100 allMock (provider None)), Inr None) \<and>
   snd (run bot100 allMock (provider None)) = Inr () \<and>
   Log (Profit (formatUnits 4000000 6) ''USDC'') \<in> set (fst (checkTry bot100 allMock (provider None)))"
proof -
  note t = amounts_logged_not_returned [OF mock_checkTry, of "provider None"]
  from t have a: "checkArbitrageOpportunity bot100 allMock (provider None) =
     (fst (checkTry bot100 allMock (provider None)), Inr None)"
    by (simp add: mock_checkTry)
  from t have b: "snd (run bot100 allMock (provider None)) = Inr ()"
    by simp
  from t have c: "Log (Profit (formatUnits 4000000 6) ''USDC'') \<in>
      set (fst (checkTry bot100 allMock (provider None)))"
    by (simp add: mock_checkTry)
  from a b c show ?thesis by blast
qed

text \<open>
  The claim of C7 as written fails on the successful run on MockLogic: the block completes
  with all amounts bound, and the call hands back no value.
\<close>

theorem no_result_counterexample:
  "snd (checkTry bot100 allMock (provider None)) =
     Inr \<lparr>flashLoanQuote = \<lparr>quoted_amount = 100000000\<rparr>, ethReceived = 40000000000000000,
          usdcReceived = 104000000, profit = 4000000\<rparr> \<and>
   snd (checkArbitrageOpportunity bot100 allMock (provider None)) = Inr None \<and>
   (\<nexists>r. snd (checkArbitrageOpportunity bot100 allMock (provider None)) = Inr (Some r))"
  by (simp add: checkArbitrageOpportunity_def mock_checkTry)

text \<open>
  C8. The claim: whenever swap A's quotation call fails, swap B is never asked, nothing is
  produced, and the run ends cleanly. The \<^verbatim>\<open>catch\<close> of lines 95 to 97 is there for
  that, but it reads \<^verbatim>\<open>error.message\<close>, which throws when the call rejected with
  \<^verbatim>\<open>undefined\<close> or \<^verbatim>\<open>null\<close>. With a library that exposes only a Sushiswap logic class
  whose quotation rejects with \<^verbatim>\<open>undefined\<close>, the flash-loan step runs on MockLogic,
  swap A is asked and rejects, swap B is not asked and no verdict or instruction is
  printed; but the \<^verbatim>\<open>catch\<close> itself throws a TypeError, the call and \<^verbatim>\<open>run\<close> are
  rejected, "Bot run completed." is never printed, and the script ends on that unhandled
  rejection.
\<close>

theorem swapA_rejecting_with_undefined_escapes:
  "loadLogics (Inr (Object [(''SushiswapV2SwapLogic'', rejectsUndefinedLogic)])) =
     ([Log (ProtocolinkExports [''SushiswapV2SwapLogic''])],
      Inr \<lparr>BalancerV2FlashLoanLogic = MockLogicFn, SushiswapV2SwapLogic = rejectsUndefinedLogic,
           UniswapV3SwapLogic = MockLogicFn\<rparr>) \<and>
   checkTry bot100 \<lparr>BalancerV2FlashLoanLogic = MockLogicFn,
       SushiswapV2SwapLogic = rejectsUndefinedLogic, UniswapV3SwapLogic = MockLogicFn\<rparr>
       (provider None) =
     ([FlashLoanQuotationCall \<lparr>token = TOKENS_USDC, amount = 100000000\<rparr>,
       Log (FlashLoanBorrowed (formatUnits 100000000 6) ''USDC''),
       SwapQuotationCall sushiswapLogic
         \<lparr>inputToken = TOKENS_USDC, outputToken = TOKENS_ETH, swap_amount = 100000000,
          pairAddress = Some SUSHISWAP_V2_PAIR_ADDRESS, poolAddress = None\<rparr>],
      Inl Nullish) \<and>
   checkArbitrageOpportunity bot100 \<lparr>BalancerV2FlashLoanLogic = MockLogicFn,
       SushiswapV2SwapLogic = rejectsUndefinedLogic, UniswapV3SwapLogic = MockLogicFn\<rparr>
       (provider None) =
     ([FlashLoanQuotationCall \<lparr>token = TOKENS_USDC, amount = 100000000\<rparr>,
       Log (FlashLoanBorrowed (formatUnits 100000000 6) ''USDC''),
       SwapQuotationCall sushiswapLogic
         \<lparr>inputToken = TOKENS_USDC, outputToken = TOKENS_ETH, swap_amount = 100000000,
          pairAddress = Some SUSHISWAP_V2_PAIR_ADDRESS, poolAddress = None\<rparr>],
      Inl (TypeError ''Cannot read properties of undefined (reading 'message')'')) \<and>
   main (Inr (Object [(''SushiswapV2SwapLogic'', rejectsUndefinedLogic)])) None =
     ([Log (ProtocolinkExports [''SushiswapV2SwapLogic'']),
       Log StartingBot,
       FlashLoanQuotationCall \<lparr>token = TOKENS_USDC, amount = 100000000\<rparr>,
       Log (FlashLoanBorrowed (formatUnits 100000000 6) ''USDC''),
       SwapQuotationCall sushiswapLogic
         \<lparr>inputToken = TOKENS_USDC, outputToken = TOKENS_ETH, swap_amount = 100000000,
          pairAddress = Some SUSHISWAP_V2_PAIR_ADDRESS, poolAddress = None\<rparr>],
      Inl (TypeError ''Cannot read properties of undefined (reading 'message')''))"
proof -
  let ?ls = "\<lparr>BalancerV2FlashLoanLogic = MockLogicFn,
       SushiswapV2SwapLogic = rejectsUndefinedLogic, UniswapV3SwapLogic = MockLogicFn\<rparr>"
  have r: "rejectsUndefinedLogic \<noteq> Undefined \<and> truthy rejectsUndefinedLogic"
    by (simp add: rejectsUndefinedLogic_def)
  have l: "loadLogics (Inr (Object [(''SushiswapV2SwapLogic'', rejectsUndefinedLogic)])) =
     ([Log (ProtocolinkExports [''SushiswapV2SwapLogic''])], Inr ?ls)"
    using r by (simp add: loadLogics_def loadTry_def resolveLogic_def)
  have s1: "step1_flashLoan bot100 ?ls (provider None) =
     ([FlashLoanQuotationCall \<lparr>token = TOKENS_USDC, amount = 100000000\<rparr>,
       Log (FlashLoanBorrowed (formatUnits 100000000 6) ''USDC'')],
      Inr \<lparr>quoted_amount = 100000000\<rparr>)"
    using mock_step1 [of bot100 rejectsUndefinedLogic MockLogicFn "provider None"]
    by (simp add: bot100_def)
  have s2: "step2_swapSushiswap ?ls (provider None) \<lparr>quoted_amount = 100000000\<rparr> =
     ([SwapQuotationCall sushiswapLogic
         \<lparr>inputToken = TOKENS_USDC, outputToken = TOKENS_ETH, swap_amount = 100000000,
          pairAddress = Some SUSHISWAP_V2_PAIR_ADDRESS, poolAddress = None\<rparr>],
      Inl Nullish)"
    using rejectsUndefined_step2 [of ?ls "provider None" "\<lparr>quoted_amount = 100000000\<rparr>"]
    by simp
  have t: "checkTry bot100 ?ls (provider None) =
     ([FlashLoanQuotationCall \<lparr>token = TOKENS_USDC, amount = 100000000\<rparr>,
       Log (FlashLoanBorrowed (formatUnits 100000000 6) ''USDC''),
       SwapQuotationCall sushiswapLogic
         \<lparr>inputToken = TOKENS_USDC, outputToken = TOKENS_ETH, swap_amount = 100000000,
          pairAddress = Some SUSHISWAP_V2_PAIR_ADDRESS, poolAddress = None\<rparr>],
      Inl Nullish)"
    by (simp add: checkTry_def andThen_def s1 s2)
  have c: "checkArbitrageOpportunity bot100 ?ls (provider None) =
     ([FlashLoanQuotationCall \<lparr>token = TOKENS_USDC, amount = 100000000\<rparr>,
       Log (FlashLoanBorrowed (formatUnits 100000000 6) ''USDC''),
       SwapQuotationCall sushiswapLogic
         \<lparr>inputToken = TOKENS_USDC, outputToken = TOKENS_ETH, swap_amount = 100000000,
          pairAddress = Some SUSHISWAP_V2_PAIR_ADDRESS, poolAddress = None\<rparr>],
      Inl (TypeError ''Cannot read properties of undefined (reading 'message')''))"
    by (simp add: checkArbitrageOpportunity_def t)
  have m: "main (Inr (Object [(''SushiswapV2SwapLogic'', rejectsUndefinedLogic)])) None =
     ([Log (ProtocolinkExports [''SushiswapV2SwapLogic'']),
       Log StartingBot,
       FlashLoanQuotationCall \<lparr>token = TOKENS_USDC, amount = 100000000\<rparr>,
       Log (FlashLoanBorrowed (formatUnits 100000000 6) ''USDC''),
       SwapQuotationCall sushiswapLogic
         \<lparr>inputToken = TOKENS_USDC, outputToken = TOKENS_ETH, swap_amount = 100000000,
          pairAddress = Some SUSHISWAP_V2_PAIR_ADDRESS, poolAddress = None\<rparr>],
      Inl (TypeError ''Cannot read properties of undefined (reading 'message')''))"
    by (simp add: main_loaded [OF l] run_def andThen_def consoleLog_def c)
  from l t c m show ?thesis by blast
qed

text \<open>
  C9. On MockLogic alone (Scenario A) the constructor's bot borrows 100000000 units of
  USDC (6 decimals), swap A answers 40000000000000000 units of ETH (18 decimals), swap B
  answers 104000000 units of USDC, and the computed profit is exactly 4000000 units of
  USDC; the run reports the profit and prints the instructions with their three cubes.
\<close>

theorem scenario_A:
  "newFlashLoanArbitrageBot = Inr bot100 \<and> flashLoanAmount bot100 = 100000000 \<and>
   decimals TOKENS_USDC = 6 \<and> decimals TOKENS_ETH = 18 \<and>
   snd (checkTry bot100 allMock (provider None)) =
     Inr \<lparr>flashLoanQuote = \<lparr>quoted_amount = 100000000\<rparr>, ethReceived = 40000000000000000,
          usdcReceived = 104000000, profit = 4000000\<rparr> \<and>
   fst (checkArbitrageOpportunity bot100 allMock (provider None)) =
     fst (checkTry bot100 allMock (provider None)) \<and>
   reportsProfit (fst (checkArbitrageOpportunity bot100 allMock (provider None))) \<and>
   Log (Profit (formatUnits 4000000 6) ''USDC'') \<in>
     set (fst (checkArbitrageOpportunity bot100 allMock (provider None))) \<and>
   cubes (instructions (fst (checkArbitrageOpportunity bot100 allMock (provider None)))) =
     [(1, ''Flash Loan'', ''Balancer V2''), (2, ''Swap'', ''Sushiswap V2''),
      (3, ''Swap'', ''Uniswap V3'')]"
proof -
  have b: "flashLoanAmount bot100 = 100000000"
    by (simp add: bot100_def)
  have d: "decimals TOKENS_USDC = 6 \<and> decimals TOKENS_ETH = 18"
    by (simp add: TOKENS_USDC_def TOKENS_ETH_def)
  have c: "fst (checkArbitrageOpportunity bot100 allMock (provider None)) =
     fst (checkTry bot100 allMock (provider None))"
    by (simp add: checkArbitrageOpportunity_def mock_checkTry)
  have s: "snd (checkTry bot100 allMock (provider None)) =
     Inr \<lparr>flashLoanQuote = \<lparr>quoted_amount = 100000000\<rparr>, ethReceived = 40000000000000000,
          usdcReceived = 104000000, profit = 4000000\<rparr>"
    by (simp add: mock_checkTry)
  have r: "reportsProfit (fst (checkTry bot100 allMock (provider None)))"
    by (simp add: mock_checkTry reportsProfit_def)
  have l: "Log (Profit (formatUnits 4000000 6) ''USDC'') \<in>
     set (fst (checkTry bot100 allMock (provider None)))"
    by (simp add: mock_checkTry)
  have k: "cubes (instructions (fst (checkTry bot100 allMock (provider None)))) =
     [(1, ''Flash Loan'', ''Balancer V2''), (2, ''Swap'', ''Sushiswap V2''),
      (3, ''Swap'', ''Uniswap V3'')]"
    by (simp add: mock_checkTry outputFurucomboInstructions_def)
  from newFlashLoanArbitrageBot_eq b d s r l k show ?thesis
    unfolding c by blast
qed

text \<open>
  C10. MockLogic's swap quotation does not depend on the requested amount: two requests
  whose input tokens carry the same symbol get the same answer, which is
  40000000000000000 units (0.04 at 18 decimals) when the symbol is USDC and 104000000
  units (104 at 6 decimals) otherwise. So when both swap logics are MockLogic, two
  successful runs of the bot get the same intermediate and final amounts, the same
  profit (104000000 minus the bot's configured amount) and the same verdict, whatever
  borrowed amounts their flash-loan quotations report.
\<close>

theorem MockLogic_swap_ignores_amount:
  assumes "symbol (inputToken p1) = symbol (inputToken p2)"
  shows "MockLogic_getSwapQuotation p1 = MockLogic_getSwapQuotation p2 \<and>
         getSwapQuotation (MockLogic c prov) = Some MockLogic_getSwapQuotation \<and>
         MockLogic_getSwapQuotation p1 =
           (if symbol (inputToken p1) = ''USDC''
            then Inr \<lparr>outputAmount = 40000000000000000\<rparr>
            else Inr \<lparr>outputAmount = 104000000\<rparr>) \<and>
         (40000000000000000 :: int) = 4 * 10 ^ 16 \<and> (104000000 :: int) = 104 * 10 ^ 6 \<and>
         (SushiswapV2SwapLogic ls1 = MockLogicFn \<and> UniswapV3SwapLogic ls1 = MockLogicFn \<and>
          SushiswapV2SwapLogic ls2 = MockLogicFn \<and> UniswapV3SwapLogic ls2 = MockLogicFn \<and>
          checkTry this ls1 prov1 = (ev1, Inr st1) \<and> checkTry this ls2 prov2 = (ev2, Inr st2)
          \<longrightarrow> ethReceived st1 = ethReceived st2 \<and> usdcReceived st1 = usdcReceived st2 \<and>
              ethReceived st1 = 40000000000000000 \<and> usdcReceived st1 = 104000000 \<and>
              profit st1 = 104000000 - flashLoanAmount this \<and>
              profit st1 = profit st2 \<and> reportsProfit ev1 = reportsProfit ev2)"
proof -
  have a: "MockLogic_getSwapQuotation p1 = MockLogic_getSwapQuotation p2"
    using assms by (simp add: MockLogic_getSwapQuotation_eq)
  have b: "getSwapQuotation (MockLogic c prov) = Some MockLogic_getSwapQuotation"
    by (simp add: MockLogic_def)
  have v: "MockLogic_getSwapQuotation p1 =
           (if symbol (inputToken p1) = ''USDC''
            then Inr \<lparr>outputAmount = 40000000000000000\<rparr>
            else Inr \<lparr>outputAmount = 104000000\<rparr>)"
    by (rule MockLogic_getSwapQuotation_eq)
  have n: "(40000000000000000 :: int) = 4 * 10 ^ 16 \<and> (104000000 :: int) = 104 * 10 ^ 6"
    by simp
  have r: "SushiswapV2SwapLogic ls1 = MockLogicFn \<and> UniswapV3SwapLogic ls1 = MockLogicFn \<and>
          SushiswapV2SwapLogic ls2 = MockLogicFn \<and> UniswapV3SwapLogic ls2 = MockLogicFn \<and>
          checkTry this ls1 prov1 = (ev1, Inr st1) \<and> checkTry this ls2 prov2 = (ev2, Inr st2)
          \<longrightarrow> ethReceived st1 = ethReceived st2 \<and> usdcReceived st1 = usdcReceived st2 \<and>
              ethReceived st1 = 40000000000000000 \<and> usdcReceived st1 = 104000000 \<and>
              profit st1 = 104000000 - flashLoanAmount this \<and>
              profit st1 = profit st2 \<and> reportsProfit ev1 = reportsProfit ev2"
  proof (intro impI, elim conjE)
    assume m1: "SushiswapV2SwapLogic ls1 = MockLogicFn" "UniswapV3SwapLogic ls1 = MockLogicFn"
      and m2: "SushiswapV2SwapLogic ls2 = MockLogicFn" "UniswapV3SwapLogic ls2 = MockLogicFn"
      and t1: "checkTry this ls1 prov1 = (ev1, Inr st1)"
      and t2: "checkTry this ls2 prov2 = (ev2, Inr st2)"
    from mock_swaps_run [OF m1 t1] mock_swaps_run [OF m2 t2]
    show "ethReceived st1 = ethReceived st2 \<and> usdcReceived st1 = usdcReceived st2 \<and>
          ethReceived st1 = 40000000000000000 \<and> usdcReceived st1 = 104000000 \<and>
          profit st1 = 104000000 - flashLoanAmount this \<and>
          profit st1 = profit st2 \<and> reportsProfit ev1 = reportsProfit ev2"
      by simp
  qed
  from a b v n r show ?thesis by blast
qed

theorem MockLogic_swap_ignores_amount_witness:
  "MockLogic_getSwapQuotation
     \<lparr>inputToken = TOKENS_USDC, outputToken = TOKENS_ETH, swap_amount = 100000000,
      pairAddress = Some SUSHISWAP_V2_PAIR_ADDRESS, poolAddress = None\<rparr> =
   MockLogic_getSwapQuotation
     \<lparr>inputToken = TOKENS_USDC, outputToken = TOKENS_ETH, swap_amount = 110000000,
      pairAddress = Some SUSHISWAP_V2_PAIR_ADDRESS, poolAddress = None\<rparr> \<and>
   MockLogic_getSwapQuotation
     \<lparr>inputToken = TOKENS_USDC, outputToken = TOKENS_ETH, swap_amount = 100000000,
      pairAddress = Some SUSHISWAP_V2_PAIR_ADDRESS, poolAddress = None\<rparr> =
     Inr \<lparr>outputAmount = 40000000000000000\<rparr> \<and>
   snd (checkTry bot100 allMock (provider None)) =
     Inr \<lparr>flashLoanQuote = \<lparr>quoted_amount = 100000000\<rparr>, ethReceived = 40000000000000000,
          usdcReceived = 104000000, profit = 4000000\<rparr> \<and>
   snd (checkTry bot100 \<lparr>BalancerV2FlashLoanLogic = fixedQuoteLogic 110000000,
          SushiswapV2SwapLogic = MockLogicFn, UniswapV3SwapLogic = MockLogicFn\<rparr> (provider None)) =
     Inr \<lparr>flashLoanQuote = \<lparr>quoted_amount = 110000000\<rparr>, ethReceived = 40000000000000000,
          usdcReceived = 104000000, profit = 4000000\<rparr> \<and>
   reportsProfit (fst (checkTry bot100 allMock (provider None))) =
   reportsProfit (fst (checkTry bot100 \<lparr>BalancerV2FlashLoanLogic = fixedQuoteLogic 110000000,
          SushiswapV2SwapLogic = MockLogicFn, UniswapV3SwapLogic = MockLogicFn\<rparr> (provider None)))"
proof -
  let ?pA = "\<lparr>inputToken = TOKENS_USDC, outputToken = TOKENS_ETH, swap_amount = 100000000,
      pairAddress = Some SUSHISWAP_V2_PAIR_ADDRESS, poolAddress = None\<rparr>"
  let ?pB = "\<lparr>inputToken = TOKENS_USDC, outputToken = TOKENS_ETH, swap_amount = 110000000,
      pairAddress = Some SUSHISWAP_V2_PAIR_ADDRESS, poolAddress = None\<rparr>"
  let ?lsB = "\<lparr>BalancerV2FlashLoanLogic = fixedQuoteLogic 110000000,
          SushiswapV2SwapLogic = MockLogicFn, UniswapV3SwapLogic = MockLogicFn\<rparr>"
  let ?stA = "\<lparr>flashLoanQuote = \<lparr>quoted_amount = 100000000\<rparr>, ethReceived = 40000000000000000,
          usdcReceived = 104000000, profit = 4000000\<rparr>"
  let ?stB = "\<lparr>flashLoanQuote = \<lparr>quoted_amount = 110000000\<rparr>, ethReceived = 40000000000000000,
          usdcReceived = 104000000, profit = 4000000\<rparr>"
  let ?evA = "fst (checkTry bot100 allMock (provider None))"
  let ?evB = "fst (checkTry bot100 ?lsB (provider None))"
  have h: "symbol (inputToken ?pA) = symbol (inputToken ?pB)"
    by simp
  have sA: "snd (checkTry bot100 allMock (provider None)) = Inr ?stA"
    by (simp add: mock_checkTry)
  then have cA: "checkTry bot100 allMock (provider None) = (?evA, Inr ?stA)"
    by (metis prod.collapse)
  have sB: "snd (checkTry bot100 ?lsB (provider None)) = Inr ?stB"
    by (rule fixed_checkTry)
  then have cB: "checkTry bot100 ?lsB (provider None) = (?evB, Inr ?stB)"
    by (metis prod.collapse)
  have mA: "SushiswapV2SwapLogic allMock = MockLogicFn \<and> UniswapV3SwapLogic allMock = MockLogicFn"
    by (simp add: allMock_def)
  have mB: "SushiswapV2SwapLogic ?lsB = MockLogicFn \<and> UniswapV3SwapLogic ?lsB = MockLogicFn"
    by simp
  note t = MockLogic_swap_ignores_amount [OF h, where c = CHAIN_ID and prov = "provider None"
      and this = bot100 and ?ls1.0 = allMock and ?ls2.0 = ?lsB
      and ?prov1.0 = "provider None" and ?prov2.0 = "provider None"
      and ?ev1.0 = ?evA and ?ev2.0 = ?evB and ?st1.0 = ?stA and ?st2.0 = ?stB]
  from t have a: "MockLogic_getSwapQuotation ?pA = MockLogic_getSwapQuotation ?pB"
    by (rule conjunct1)
  from t have "MockLogic_getSwapQuotation ?pA =
           (if symbol (inputToken ?pA) = ''USDC''
            then Inr \<lparr>outputAmount = 40000000000000000\<rparr>
            else Inr \<lparr>outputAmount = 104000000\<rparr>)"
    by blast
  then have b: "MockLogic_getSwapQuotation ?pA = Inr \<lparr>outputAmount = 40000000000000000\<rparr>"
    by (simp add: TOKENS_USDC_def)
  from t mA mB cA cB have r: "reportsProfit ?evA = reportsProfit ?evB"
    by blast
  from a b sA sB r show ?thesis by blast
qed

end
